theory Spec2Isabelle
  imports Main "HOL-Library.Sublist" "HOL-Library.Char_ord" "HOL-Library.List_Lexorder"
    "HOL-Library.AList"
begin

section \<open>Go strings and slices\<close>

text \<open>
  A Go string is a sequence of bytes, modelled as \<open>string\<close>. The functions of package
  \<open>strings\<close> that the sources call are modelled on bytes: \<open>strings.HasPrefix\<close> is
  \<open>prefix\<close>, \<open>strings.HasSuffix\<close> is \<open>suffix\<close> and \<open>strings.Contains\<close> is
  \<open>sublist\<close> (all three from \<open>HOL-Library.Sublist\<close>, with the arguments swapped).
  Every call of \<open>strings.Split\<close> in the sources has a one-byte separator, so the
  separator is a \<open>char\<close>.
\<close>

fun Split :: "char \<Rightarrow> string \<Rightarrow> string list" where
  "Split sep [] = [[]]"
| "Split sep (c # cs) =
     (if c = sep then [] # Split sep cs
      else (case Split sep cs of [] \<Rightarrow> [[c]] | p # ps \<Rightarrow> (c # p) # ps))"

definition HasPrefix :: "string \<Rightarrow> string \<Rightarrow> bool" where
  "HasPrefix s pre = prefix pre s"

definition HasSuffix :: "string \<Rightarrow> string \<Rightarrow> bool" where
  "HasSuffix s suf = suffix suf s"

definition Contains :: "string \<Rightarrow> string \<Rightarrow> bool" where
  "Contains s substr = sublist substr s"

text \<open>
  \<open>strings.TrimSpace\<close> removes the leading and the trailing white space, as Unicode
  defines it: the code points U+0009 to U+000D, U+0020, U+0085, U+00A0, U+1680, U+2000 to
  U+200A, U+2028, U+2029, U+202F, U+205F and U+3000. \<open>spaceRunes\<close> lists their UTF-8
  encodings. Go decodes the first code point of the string, and it is one of these exactly
  when its encoding is a prefix of the string; it decodes the last code point by going
  back to the last byte that starts a code point, and it is one of these exactly when its
  encoding is a suffix of the string. A byte that is not part of a well-formed encoding
  decodes to U+FFFD, which is not white space.
\<close>

definition spaceRunes :: "string list" where
  "spaceRunes =
     [[CHR 0x09], [CHR 0x0A], [CHR 0x0B], [CHR 0x0C], [CHR 0x0D], [CHR 0x20],
      [CHR 0xC2, CHR 0x85], [CHR 0xC2, CHR 0xA0], [CHR 0xE1, CHR 0x9A, CHR 0x80],
      [CHR 0xE2, CHR 0x80, CHR 0x80], [CHR 0xE2, CHR 0x80, CHR 0x81],
      [CHR 0xE2, CHR 0x80, CHR 0x82], [CHR 0xE2, CHR 0x80, CHR 0x83],
      [CHR 0xE2, CHR 0x80, CHR 0x84], [CHR 0xE2, CHR 0x80, CHR 0x85],
      [CHR 0xE2, CHR 0x80, CHR 0x86], [CHR 0xE2, CHR 0x80, CHR 0x87],
      [CHR 0xE2, CHR 0x80, CHR 0x88], [CHR 0xE2, CHR 0x80, CHR 0x89],
      [CHR 0xE2, CHR 0x80, CHR 0x8A], [CHR 0xE2, CHR 0x80, CHR 0xA8],
      [CHR 0xE2, CHR 0x80, CHR 0xA9], [CHR 0xE2, CHR 0x80, CHR 0xAF],
      [CHR 0xE2, CHR 0x81, CHR 0x9F], [CHR 0xE3, CHR 0x80, CHR 0x80]]"

function trimLeftSpace :: "string \<Rightarrow> string" where
  "trimLeftSpace s =
     (case find (\<lambda>r. prefix r s) spaceRunes of
        None \<Rightarrow> s
      | Some r \<Rightarrow> trimLeftSpace (drop (length r) s))"
  by pat_completeness auto
termination
proof (relation "measure length")
  show "wf (measure length)"
    by simp
next
  fix s r :: string
  assume "find (\<lambda>r. prefix r s) spaceRunes = Some r"
  then have "r \<in> set spaceRunes" and p: "prefix r s"
    by (auto simp add: find_Some_iff)
  then have "r \<noteq> []"
    by (auto simp add: spaceRunes_def)
  with p have "s \<noteq> []"
    by auto
  with \<open>r \<noteq> []\<close> show "(drop (length r) s, s) \<in> measure length"
    by simp
qed

function trimRightSpace :: "string \<Rightarrow> string" where
  "trimRightSpace s =
     (case find (\<lambda>r. suffix r s) spaceRunes of
        None \<Rightarrow> s
      | Some r \<Rightarrow> trimRightSpace (take (length s - length r) s))"
  by pat_completeness auto
termination
proof (relation "measure length")
  show "wf (measure length)"
    by simp
next
  fix s r :: string
  assume "find (\<lambda>r. suffix r s) spaceRunes = Some r"
  then have "r \<in> set spaceRunes" and p: "suffix r s"
    by (auto simp add: find_Some_iff)
  then have "r \<noteq> []"
    by (auto simp add: spaceRunes_def)
  with p have "s \<noteq> []"
    by auto
  with \<open>r \<noteq> []\<close> show "(take (length s - length r) s, s) \<in> measure length"
    by simp
qed

declare trimLeftSpace.simps [simp del]
declare trimRightSpace.simps [simp del]

definition TrimSpace :: "string \<Rightarrow> string" where
  "TrimSpace s = trimRightSpace (trimLeftSpace s)"

text \<open>
  \<open>strings.ToLower\<close> maps every code point to its lower case. In ASCII this sets bit 5 of
  the bytes \<open>A\<close> to \<open>Z\<close>. Two code points outside ASCII have a lower case in ASCII:
  U+0130, with the bytes C4 B0, gives \<open>i\<close>, and U+212A, with the bytes E2 84 AA, gives
  \<open>k\<close>. The bytes C4 and E2 always start a code point, so the model folds the two
  sequences wherever they stand. Every other code point outside ASCII has a lower case
  outside ASCII, and a byte that is not part of a well-formed encoding becomes U+FFFD: the
  model leaves these bytes as they are. Its result differs from Go's in such bytes only,
  and both results then have a byte outside ASCII. The sources compare the result with
  words of ASCII only (the kinds of the owners), so each comparison comes out as in Go.
\<close>

definition toLowerByte :: "char \<Rightarrow> char" where
  "toLowerByte c =
     (if CHR ''A'' \<le> c \<and> c \<le> CHR ''Z''
      then (case c of Char b0 b1 b2 b3 b4 b5 b6 b7 \<Rightarrow> Char b0 b1 b2 b3 b4 True b6 b7)
      else c)"

fun ToLower :: "string \<Rightarrow> string" where
  "ToLower [] = []"
| "ToLower (c # s) =
     (if c = CHR 0xC4 \<and> prefix [CHR 0xB0] s then CHR ''i'' # ToLower (drop 1 s)
      else if c = CHR 0xE2 \<and> prefix [CHR 0x84, CHR 0xAA] s then CHR ''k'' # ToLower (drop 2 s)
      else toLowerByte c # ToLower s)"

fun Join :: "string list \<Rightarrow> string \<Rightarrow> string" where
  "Join [] sep = []"
| "Join [x] sep = x"
| "Join (x # y # ys) sep = x @ sep @ Join (y # ys) sep"

text \<open>
  Indexing a slice with an \<open>int\<close> panics out of range. A panic is the value
  \<open>Inl IndexOutOfRange\<close>.
\<close>

datatype error = IndexOutOfRange

definition at :: "'a list \<Rightarrow> int \<Rightarrow> error + 'a" where
  "at xs i = (if 0 \<le> i \<and> i < int (length xs) then Inr (xs ! nat i) else Inl IndexOutOfRange)"

text \<open>
  A Go \<open>map[string]string\<close> is an association list that is only read with \<open>lookup\<close>
  (a missing key reads as the empty string) and only written with \<open>AList.update\<close>, which
  keeps one entry for each key.
\<close>

type_synonym strmap = "(string \<times> string) list"

definition lookup :: "strmap \<Rightarrow> string \<Rightarrow> string" where
  "lookup m k = (case map_of m k of None \<Rightarrow> [] | Some v \<Rightarrow> v)"

section \<open>The Kubernetes objects the engine reads and writes\<close>

datatype EnvVarSource =
    FieldRef string
  | SecretKeyRef string string bool

record EnvVar =
  Name :: string
  Value :: string
  ValueFrom :: "EnvVarSource option"

record Container =
  CName :: string
  Image :: string
  Env :: "EnvVar list"

record OwnerReference =
  Kind :: string
  OName :: string
  OUID :: string

record ObjectMeta =
  MName :: string
  UID :: string
  OwnerReferences :: "OwnerReference list"

record PodSpec =
  Containers :: "Container list"
  NodeName :: string

record Pod =
  PMeta :: ObjectMeta
  Spec :: PodSpec

record Namespace =
  NMeta :: ObjectMeta

record LangSpec =
  LImage :: string
  LEnv :: "EnvVar list"

record InstrumentationSpec =
  Endpoint :: string
  Attributes :: strmap
  AddK8sUIDAttributes :: bool
  Propagators :: "string list"
  SamplerType :: string
  SamplerArgument :: string
  SEnv :: "EnvVar list"
  Java :: LangSpec
  NodeJS :: LangSpec
  Python :: LangSpec
  DotNet :: LangSpec
  Php :: LangSpec
  Go :: LangSpec

record Instrumentation =
  IMeta :: ObjectMeta
  ISpec :: InstrumentationSpec

section \<open>api/v1alpha1/instrumentation\_webhook.go\<close>

definition envNewRelicPrefix :: string where
  "envNewRelicPrefix = ''NEW_RELIC_''"

definition envOtelPrefix :: string where
  "envOtelPrefix = ''OTEL_''"

text \<open>
  The text of the error of \<open>validateEnv\<close> before the name of the variable. A Go \<open>error\<close>
  is an optional message: \<open>None\<close> is \<open>nil\<close>.
\<close>

definition envNameMessage :: string where
  "envNameMessage =
     ''env name should start with '' @ [CHR 0x22] @ ''NEW_RELIC_'' @ [CHR 0x22] @ '' or ''
       @ [CHR 0x22] @ ''OTEL_'' @ [CHR 0x22] @ '': ''"

fun validateEnv :: "EnvVar list \<Rightarrow> string option" where
  "validateEnv [] = None"
| "validateEnv (env # envs) =
     (if \<not> HasPrefix (Name env) envNewRelicPrefix \<and> \<not> HasPrefix (Name env) envOtelPrefix
      then Some (envNameMessage @ Name env)
      else validateEnv envs)"

definition validate :: "Instrumentation \<Rightarrow> string option" where
  "validate r =
     (case validateEnv (SEnv (ISpec r)) of Some err \<Rightarrow> Some err | None \<Rightarrow>
      case validateEnv (LEnv (Java (ISpec r))) of Some err \<Rightarrow> Some err | None \<Rightarrow>
      case validateEnv (LEnv (NodeJS (ISpec r))) of Some err \<Rightarrow> Some err | None \<Rightarrow>
      case validateEnv (LEnv (Python (ISpec r))) of Some err \<Rightarrow> Some err | None \<Rightarrow>
      case validateEnv (LEnv (DotNet (ISpec r))) of Some err \<Rightarrow> Some err | None \<Rightarrow>
      case validateEnv (LEnv (Php (ISpec r))) of Some err \<Rightarrow> Some err | None \<Rightarrow>
      case validateEnv (LEnv (Go (ISpec r))) of Some err \<Rightarrow> Some err | None \<Rightarrow>
      None)"

text \<open>
  The names a declared variable may not have, and the variables \<open>validate\<close> looks at, in
  the order it looks at them. Both are used to state what \<open>validate\<close> computes.
\<close>

definition badEnvName :: "string \<Rightarrow> bool" where
  "badEnvName n = (\<not> prefix ''NEW_RELIC_'' n \<and> \<not> prefix ''OTEL_'' n)"

definition declaredEnvs :: "Instrumentation \<Rightarrow> EnvVar list" where
  "declaredEnvs r =
     SEnv (ISpec r) @ LEnv (Java (ISpec r)) @ LEnv (NodeJS (ISpec r)) @ LEnv (Python (ISpec r))
       @ LEnv (DotNet (ISpec r)) @ LEnv (Php (ISpec r)) @ LEnv (Go (ISpec r))"

section \<open>instrumentation/sdk.go: the keys of the resource attributes\<close>

text \<open>The keys of \<open>go.opentelemetry.io/otel/semconv/v1.5.0\<close> that the engine uses.\<close>

definition K8SNamespaceNameKey :: string where "K8SNamespaceNameKey = ''k8s.namespace.name''"
definition K8SContainerNameKey :: string where "K8SContainerNameKey = ''k8s.container.name''"
definition K8SPodNameKey :: string where "K8SPodNameKey = ''k8s.pod.name''"
definition K8SPodUIDKey :: string where "K8SPodUIDKey = ''k8s.pod.uid''"
definition K8SNodeNameKey :: string where "K8SNodeNameKey = ''k8s.node.name''"
definition ServiceInstanceIDKey :: string where "ServiceInstanceIDKey = ''service.instance.id''"
definition ServiceVersionKey :: string where "ServiceVersionKey = ''service.version''"
definition K8SReplicaSetNameKey :: string where "K8SReplicaSetNameKey = ''k8s.replicaset.name''"
definition K8SReplicaSetUIDKey :: string where "K8SReplicaSetUIDKey = ''k8s.replicaset.uid''"
definition K8SDeploymentNameKey :: string where "K8SDeploymentNameKey = ''k8s.deployment.name''"
definition K8SDeploymentUIDKey :: string where "K8SDeploymentUIDKey = ''k8s.deployment.uid''"
definition K8SStatefulSetNameKey :: string where "K8SStatefulSetNameKey = ''k8s.statefulset.name''"
definition K8SStatefulSetUIDKey :: string where "K8SStatefulSetUIDKey = ''k8s.statefulset.uid''"
definition K8SDaemonSetNameKey :: string where "K8SDaemonSetNameKey = ''k8s.daemonset.name''"
definition K8SDaemonSetUIDKey :: string where "K8SDaemonSetUIDKey = ''k8s.daemonset.uid''"
definition K8SJobNameKey :: string where "K8SJobNameKey = ''k8s.job.name''"
definition K8SJobUIDKey :: string where "K8SJobUIDKey = ''k8s.job.uid''"
definition K8SCronJobNameKey :: string where "K8SCronJobNameKey = ''k8s.cronjob.name''"
definition K8SCronJobUIDKey :: string where "K8SCronJobUIDKey = ''k8s.cronjob.uid''"

section \<open>instrumentation/sdk.go: the container search\<close>

text \<open>
  The loop of \<open>getContainerIndex\<close>, which \<open>inject\<close> repeats word for word:
  \<open>idx\<close> is the position of the container at the head of the list, \<open>index\<close> the
  variable the loop assigns. There is no \<open>break\<close>.
\<close>

fun containerSearch :: "string \<Rightarrow> Container list \<Rightarrow> int \<Rightarrow> int \<Rightarrow> int" where
  "containerSearch containerName [] idx index = index"
| "containerSearch containerName (ctnair # rest) idx index =
     containerSearch containerName rest (idx + 1)
       (if CName ctnair = containerName then idx else index)"

definition getContainerIndex :: "string \<Rightarrow> Pod \<Rightarrow> int" where
  "getContainerIndex containerName pod =
     containerSearch containerName (Containers (Spec pod)) 0 0"

section \<open>instrumentation/sdk.go: the service name and version\<close>

definition chooseServiceName :: "Pod \<Rightarrow> strmap \<Rightarrow> int \<Rightarrow> error + string" where
  "chooseServiceName pod resources index =
     (if lookup resources K8SDeploymentNameKey \<noteq> [] then Inr (lookup resources K8SDeploymentNameKey)
      else if lookup resources K8SStatefulSetNameKey \<noteq> [] then Inr (lookup resources K8SStatefulSetNameKey)
      else if lookup resources K8SJobNameKey \<noteq> [] then Inr (lookup resources K8SJobNameKey)
      else if lookup resources K8SCronJobNameKey \<noteq> [] then Inr (lookup resources K8SCronJobNameKey)
      else if lookup resources K8SPodNameKey \<noteq> [] then Inr (lookup resources K8SPodNameKey)
      else (case at (Containers (Spec pod)) index of
              Inl e \<Rightarrow> Inl e
            | Inr c \<Rightarrow> Inr (CName c)))"

text \<open>
  \<open>parts[len(parts)-1]\<close> is \<open>last parts\<close>: \<open>Split\<close> never returns the empty slice
  (lemma \<open>Split_not_Nil\<close>), so the index is in range.
\<close>

definition chooseServiceVersion :: "Pod \<Rightarrow> int \<Rightarrow> error + string" where
  "chooseServiceVersion pod index =
     (case at (Containers (Spec pod)) index of
        Inl e \<Rightarrow> Inl e
      | Inr c \<Rightarrow>
          (let parts = Split (CHR '':'') (Image c);
               tag = last parts
           in if Contains tag ''/'' then Inr [] else Inr tag))"

section \<open>instrumentation/sdk.go: the environment list\<close>

text \<open>
  The names of the environment variables are constants of package \<open>constants\<close>, which is
  not among the sources. They are a parameter \<open>K\<close> of every function that uses one, and
  the theorems hold for every choice of the names unless they say otherwise.
\<close>

record constants =
  EnvOTELServiceName :: string
  EnvOTELExporterOTLPEndpoint :: string
  EnvOTELResourceAttrs :: string
  EnvOTELPropagators :: string
  EnvOTELTracesSampler :: string
  EnvOTELTracesSamplerArg :: string
  EnvPodName :: string
  EnvPodUID :: string
  EnvNodeName :: string
  EnvNewRelicAppName :: string
  EnvNewRelicLicenseKey :: string
  EnvNewRelicLabels :: string

text \<open>
  Modelled from the spec: package \<open>constants\<close> is missing. Section 6 of the spec lists
  the variables (service name, license key, labels marker, resource attributes, exporter
  endpoint, pod name, pod UID, node name, propagators, trace sampler type and argument)
  without their strings; these are the names the OpenTelemetry and New Relic agents
  read. They are used for concrete inputs only.
\<close>

definition agentNames :: constants where
  "agentNames =
     \<lparr>EnvOTELServiceName = ''OTEL_SERVICE_NAME'',
      EnvOTELExporterOTLPEndpoint = ''OTEL_EXPORTER_OTLP_ENDPOINT'',
      EnvOTELResourceAttrs = ''OTEL_RESOURCE_ATTRIBUTES'',
      EnvOTELPropagators = ''OTEL_PROPAGATORS'',
      EnvOTELTracesSampler = ''OTEL_TRACES_SAMPLER'',
      EnvOTELTracesSamplerArg = ''OTEL_TRACES_SAMPLER_ARG'',
      EnvPodName = ''OTEL_RESOURCE_ATTRIBUTES_POD_NAME'',
      EnvPodUID = ''OTEL_RESOURCE_ATTRIBUTES_POD_UID'',
      EnvNodeName = ''OTEL_RESOURCE_ATTRIBUTES_NODE_NAME'',
      EnvNewRelicAppName = ''NEW_RELIC_APP_NAME'',
      EnvNewRelicLicenseKey = ''NEW_RELIC_LICENSE_KEY'',
      EnvNewRelicLabels = ''NEW_RELIC_LABELS''\<rparr>"

text \<open>The loop of \<open>getIndexOfEnv\<close>; \<open>i\<close> is the position of the head of the list.\<close>

fun getIndexOfEnvFrom :: "EnvVar list \<Rightarrow> string \<Rightarrow> int \<Rightarrow> int" where
  "getIndexOfEnvFrom [] name i = - 1"
| "getIndexOfEnvFrom (env # envs) name i =
     (if Name env = name then i else getIndexOfEnvFrom envs name (i + 1))"

definition getIndexOfEnv :: "EnvVar list \<Rightarrow> string \<Rightarrow> int" where
  "getIndexOfEnv envs name = getIndexOfEnvFrom envs name 0"

definition moveEnvToListEnd :: "EnvVar list \<Rightarrow> int \<Rightarrow> EnvVar list" where
  "moveEnvToListEnd envs idx =
     (if idx \<ge> 0 \<and> idx < int (length envs)
      then (let envToMove = envs ! nat idx;
                envs' = take (nat idx) envs @ drop (nat idx + 1) envs
            in envs' @ [envToMove])
      else envs)"

text \<open>A variable with a literal value, and one with a field reference.\<close>

definition literalEnv :: "string \<Rightarrow> string \<Rightarrow> EnvVar" where
  "literalEnv name v = \<lparr>Name = name, Value = v, ValueFrom = None\<rparr>"

definition fieldRefEnv :: "string \<Rightarrow> string \<Rightarrow> EnvVar" where
  "fieldRefEnv name fieldPath = \<lparr>Name = name, Value = [], ValueFrom = Some (FieldRef fieldPath)\<rparr>"

text \<open>\<open>pod.Spec.Containers[index].Env = env\<close>, for an index in range.\<close>

definition setContainerEnv :: "Pod \<Rightarrow> int \<Rightarrow> EnvVar list \<Rightarrow> Pod" where
  "setContainerEnv pod index env =
     pod\<lparr>Spec := (Spec pod)\<lparr>Containers :=
       (Containers (Spec pod))[nat index := (Containers (Spec pod) ! nat index)\<lparr>Env := env\<rparr>]\<rparr>\<rparr>"

section \<open>instrumentation/sdk.go: the resource attributes\<close>

definition resourceMapToStr :: "strmap \<Rightarrow> string" where
  "resourceMapToStr res =
     (let keys = sort (map fst res)
      in fold (\<lambda>k str. (if str \<noteq> [] then str @ '','' else str) @ k @ ''='' @ lookup res k)
           keys [])"

definition createServiceInstanceId :: "string \<Rightarrow> string \<Rightarrow> string \<Rightarrow> string" where
  "createServiceInstanceId namespaceName podName containerName =
     (if namespaceName \<noteq> [] \<and> podName \<noteq> [] \<and> containerName \<noteq> []
      then Join [namespaceName, podName, containerName] ''.''
      else [])"

text \<open>
  The cluster. \<open>client.Get\<close> for a ReplicaSet answers with the object, with a not-found
  error or with another error; an error leaves the object it was given untouched. The
  answer may change from one call to the next, so \<open>Get\<close> is a function of the number of
  calls made before, which the engine passes along.

  \<open>Attempts\<close> is the number of calls that \<open>retry.OnError\<close> allows with the back-off of
  the source. The back-off has \<open>Steps: 20\<close>, and the library ends it earlier when the
  delay reaches \<open>Cap\<close>, so the number is a field of the client and not fixed here.
\<close>

datatype getResult = Found ObjectMeta | NotFound | OtherError

record client =
  Get :: "nat \<Rightarrow> string \<Rightarrow> string \<Rightarrow> getResult"
  Attempts :: nat

text \<open>
  \<open>retry.OnError\<close> of client-go with \<open>apierrors.IsNotFound\<close> as the test, as section 4.1
  of the spec describes it: at most \<open>steps\<close> calls, one more after a not-found error, none
  after a success or another error. \<open>lastErr\<close> says whether a call has answered not found.
  The result is whether the error is not nil, the metadata of the object \<open>rs\<close>, and the
  number of calls made. The waiting between two calls has no effect on the result.
\<close>

fun OnError :: "nat \<Rightarrow> (nat \<Rightarrow> string \<Rightarrow> string \<Rightarrow> getResult) \<Rightarrow> nat \<Rightarrow> string \<Rightarrow> string \<Rightarrow> ObjectMeta
    \<Rightarrow> bool \<Rightarrow> bool \<times> ObjectMeta \<times> nat" where
  "OnError 0 get n ns name rs lastErr = (lastErr, rs, n)"
| "OnError (Suc steps) get n ns name rs lastErr =
     (case get n ns name of
        Found obj \<Rightarrow> (False, obj, Suc n)
      | NotFound \<Rightarrow> OnError steps get (Suc n) ns name rs True
      | OtherError \<Rightarrow> (True, rs, Suc n))"

text \<open>The zero value of \<open>appsv1.ReplicaSet\<close>, as far as its metadata goes.\<close>

definition emptyObjectMeta :: ObjectMeta where
  "emptyObjectMeta = \<lparr>MName = [], UID = [], OwnerReferences = []\<rparr>"

text \<open>
  \<open>addParentResourceLabels\<close> calls itself on the metadata of the ReplicaSet it fetched,
  and nothing bounds the length of a chain of ReplicaSets owned by ReplicaSets, so the
  model has fuel: one unit for each ReplicaSet on the path from the pod, \<open>None\<close> when it
  runs out. \<open>ownerLoop\<close> is the loop over the owner references; the state is the map
  \<open>resources\<close> and the number of calls of the client. The error of the lookup is
  logged and not otherwise used.
\<close>

fun ownerLoop :: "nat \<Rightarrow> client \<Rightarrow> bool \<Rightarrow> Namespace \<Rightarrow> OwnerReference list \<Rightarrow> strmap \<times> nat
    \<Rightarrow> (strmap \<times> nat) option" where
  "ownerLoop fuel c uid ns [] st = Some st"
| "ownerLoop fuel c uid ns (owner # owners) (resources, n) =
     (let kind = ToLower (Kind owner) in
      if kind = ''replicaset'' then
        (case fuel of
           0 \<Rightarrow> None
         | Suc fuel' \<Rightarrow>
             (let resources = AList.update K8SReplicaSetNameKey (OName owner) resources;
                  resources = (if uid then AList.update K8SReplicaSetUIDKey (OUID owner) resources
                               else resources);
                  (err, rs, n') = OnError (Attempts c) (Get c) n (MName (NMeta ns)) (OName owner) emptyObjectMeta False
              in case ownerLoop fuel' c uid ns (OwnerReferences rs) (resources, n') of
                   None \<Rightarrow> None
                 | Some st' \<Rightarrow> ownerLoop fuel c uid ns owners st'))
      else if kind = ''deployment'' then
        ownerLoop fuel c uid ns owners
          (let resources = AList.update K8SDeploymentNameKey (OName owner) resources
           in if uid then AList.update K8SDeploymentUIDKey (OUID owner) resources else resources, n)
      else if kind = ''statefulset'' then
        ownerLoop fuel c uid ns owners
          (let resources = AList.update K8SStatefulSetNameKey (OName owner) resources
           in if uid then AList.update K8SStatefulSetUIDKey (OUID owner) resources else resources, n)
      else if kind = ''daemonset'' then
        ownerLoop fuel c uid ns owners
          (let resources = AList.update K8SDaemonSetNameKey (OName owner) resources
           in if uid then AList.update K8SDaemonSetUIDKey (OUID owner) resources else resources, n)
      else if kind = ''job'' then
        ownerLoop fuel c uid ns owners
          (let resources = AList.update K8SJobNameKey (OName owner) resources
           in if uid then AList.update K8SJobUIDKey (OUID owner) resources else resources, n)
      else if kind = ''cronjob'' then
        ownerLoop fuel c uid ns owners
          (let resources = AList.update K8SCronJobNameKey (OName owner) resources
           in if uid then AList.update K8SCronJobUIDKey (OUID owner) resources else resources, n)
      else ownerLoop fuel c uid ns owners (resources, n))"

definition addParentResourceLabels :: "nat \<Rightarrow> client \<Rightarrow> bool \<Rightarrow> Namespace \<Rightarrow> ObjectMeta \<Rightarrow> strmap \<times> nat
    \<Rightarrow> (strmap \<times> nat) option" where
  "addParentResourceLabels fuel c uid ns objectMeta st =
     ownerLoop fuel c uid ns (OwnerReferences objectMeta) st"

text \<open>
  The keys that the value of the resource-attributes variable declares, as
  \<open>createResourceMap\<close> reads them: the loop over the parts between commas.
\<close>

fun existingKeys :: "string list \<Rightarrow> string list \<Rightarrow> string list" where
  "existingKeys [] existingRes = existingRes"
| "existingKeys (kv # rest) existingRes =
     (let keyValueArr = Split (CHR ''='') (TrimSpace kv)
      in if length keyValueArr \<noteq> 2 then existingKeys rest existingRes
         else existingKeys rest (existingRes @ [keyValueArr ! 0]))"

definition existingResOf :: "constants \<Rightarrow> EnvVar list \<Rightarrow> string list" where
  "existingResOf K env =
     (let existingResourceEnvIdx = getIndexOfEnv env (EnvOTELResourceAttrs K)
      in if existingResourceEnvIdx > - 1
         then existingKeys (Split (CHR '','') (Value (env ! nat existingResourceEnvIdx))) []
         else [])"

text \<open>The map \<open>k8sResources\<close> before the owners are added (lines 405 to 413).\<close>

definition k8sResourcesOf :: "Namespace \<Rightarrow> Pod \<Rightarrow> Container \<Rightarrow> strmap" where
  "k8sResourcesOf ns pod container =
     AList.update ServiceInstanceIDKey
       (createServiceInstanceId (MName (NMeta ns)) (MName (PMeta pod)) (CName container))
    (AList.update K8SNodeNameKey (NodeName (Spec pod))
    (AList.update K8SPodUIDKey (UID (PMeta pod))
    (AList.update K8SPodNameKey (MName (PMeta pod))
    (AList.update K8SContainerNameKey (CName container)
    (AList.update K8SNamespaceNameKey (MName (NMeta ns)) [])))))"

text \<open>
  A result is \<open>None\<close> when the fuel ran out, \<open>Some (Inl e)\<close> for a panic and
  \<open>Some (Inr x)\<close> for a return.
\<close>

definition bindR :: "('e + 'a) option \<Rightarrow> ('a \<Rightarrow> ('e + 'b) option) \<Rightarrow> ('e + 'b) option" where
  "bindR m f = (case m of None \<Rightarrow> None | Some (Inl e) \<Rightarrow> Some (Inl e) | Some (Inr a) \<Rightarrow> f a)"

definition createResourceMap :: "constants \<Rightarrow> nat \<Rightarrow> client \<Rightarrow> Instrumentation \<Rightarrow> Namespace \<Rightarrow> Pod \<Rightarrow> int
    \<Rightarrow> nat \<Rightarrow> (error + strmap \<times> nat) option" where
  "createResourceMap K fuel c newrelic ns pod index n =
     (case at (Containers (Spec pod)) index of
        Inl e \<Rightarrow> Some (Inl e)
      | Inr container \<Rightarrow>
          (let existingRes = existingResOf K (Env container);
               res = fold (\<lambda>(k, v) res. if k \<notin> set existingRes then AList.update k v res else res)
                       (Attributes (ISpec newrelic)) [];
               k8sResources = k8sResourcesOf ns pod container
           in case addParentResourceLabels fuel c (AddK8sUIDAttributes (ISpec newrelic)) ns
                     (PMeta pod) (k8sResources, n) of
                None \<Rightarrow> None
              | Some (k8sResources, n') \<Rightarrow>
                  Some (Inr
                    (fold (\<lambda>(k, v) res. if k \<notin> set existingRes \<and> v \<noteq> [] then AList.update k v res
                                         else res)
                       k8sResources res, n'))))"

section \<open>instrumentation/sdk.go: the common configuration\<close>

definition injectCommonEnvVar :: "Instrumentation \<Rightarrow> Pod \<Rightarrow> int \<Rightarrow> error + Pod" where
  "injectCommonEnvVar newrelic pod index =
     (case at (Containers (Spec pod)) index of
        Inl e \<Rightarrow> Inl e
      | Inr container \<Rightarrow>
          Inr (setContainerEnv pod index
                 (fold (\<lambda>env cenv. if getIndexOfEnv cenv (Name env) = - 1 then cenv @ [env] else cenv)
                    (SEnv (ISpec newrelic)) (Env container))))"

text \<open>
  \<open>injectCommonSDKConfig\<close> is a sequence of blocks that change the environment list of
  the agent container and the resource map. Each block is a function of its own here,
  in the order of the source; \<open>injectCommonSDKConfig\<close> below runs them one after the
  other.
\<close>

text \<open>Lines 173 to 179.\<close>

definition injectServiceName :: "constants \<Rightarrow> Pod \<Rightarrow> strmap \<Rightarrow> int \<Rightarrow> EnvVar list \<Rightarrow> error + EnvVar list" where
  "injectServiceName K pod resourceMap appIndex env =
     (let idx = getIndexOfEnv env (EnvOTELServiceName K)
      in if idx = - 1
         then (case chooseServiceName pod resourceMap appIndex of
                 Inl e \<Rightarrow> Inl e
               | Inr v \<Rightarrow> Inr (env @ [literalEnv (EnvOTELServiceName K) v]))
         else Inr env)"

text \<open>Lines 180 to 188.\<close>

definition injectEndpoint :: "constants \<Rightarrow> Instrumentation \<Rightarrow> EnvVar list \<Rightarrow> EnvVar list" where
  "injectEndpoint K newrelic env =
     (if Endpoint (ISpec newrelic) \<noteq> []
      then (let idx = getIndexOfEnv env (EnvOTELExporterOTLPEndpoint K)
            in if idx = - 1
               then env @ [literalEnv (EnvOTELExporterOTLPEndpoint K) (Endpoint (ISpec newrelic))]
               else env)
      else env)"

text \<open>
  Lines 191 to 201, 203 to 213 and 224 to 234: a key of the resource map that reads as
  the empty string gets a variable with a field reference and a value that refers to
  this variable.
\<close>

definition injectDownward :: "string \<Rightarrow> string \<Rightarrow> string \<Rightarrow> EnvVar list \<times> strmap \<Rightarrow> EnvVar list \<times> strmap" where
  "injectDownward key envName fieldPath st =
     (case st of (env, resourceMap) \<Rightarrow>
        if lookup resourceMap key = []
        then (env @ [fieldRefEnv envName fieldPath],
              AList.update key (''$('' @ envName @ '')'') resourceMap)
        else (env, resourceMap))"

text \<open>Lines 216 to 222.\<close>

definition injectServiceVersion :: "constants \<Rightarrow> Pod \<Rightarrow> int \<Rightarrow> EnvVar list \<times> strmap \<Rightarrow> error + EnvVar list \<times> strmap" where
  "injectServiceVersion K pod appIndex st =
     (case st of (env, resourceMap) \<Rightarrow>
        (let idx = getIndexOfEnv env (EnvOTELResourceAttrs K)
         in if idx = - 1 \<or> \<not> Contains (Value (env ! nat idx)) ServiceVersionKey
            then (case chooseServiceVersion pod appIndex of
                    Inl e \<Rightarrow> Inl e
                  | Inr vsn \<Rightarrow>
                      if vsn \<noteq> [] then Inr (env, AList.update ServiceVersionKey vsn resourceMap)
                      else Inr (env, resourceMap))
            else Inr (env, resourceMap)))"

text \<open>Lines 236 to 248.\<close>

definition injectResourceAttrs :: "constants \<Rightarrow> EnvVar list \<times> strmap \<Rightarrow> EnvVar list" where
  "injectResourceAttrs K st =
     (case st of (env, resourceMap) \<Rightarrow>
        (let idx = getIndexOfEnv env (EnvOTELResourceAttrs K);
             resStr = resourceMapToStr resourceMap
         in if idx = - 1 then env @ [literalEnv (EnvOTELResourceAttrs K) resStr]
            else (let resStr = (if \<not> HasSuffix (Value (env ! nat idx)) '','' then '','' @ resStr
                                else resStr)
                  in env[nat idx := (env ! nat idx)\<lparr>Value := Value (env ! nat idx) @ resStr\<rparr>])))"

text \<open>Lines 250 to 257.\<close>

definition injectPropagators :: "constants \<Rightarrow> Instrumentation \<Rightarrow> EnvVar list \<Rightarrow> EnvVar list" where
  "injectPropagators K newrelic env =
     (let idx = getIndexOfEnv env (EnvOTELPropagators K)
      in if idx = - 1 \<and> length (Propagators (ISpec newrelic)) > 0
         then env @ [literalEnv (EnvOTELPropagators K) (Join (Propagators (ISpec newrelic)) '','')]
         else env)"

text \<open>Lines 259 to 275.\<close>

definition injectSampler :: "constants \<Rightarrow> Instrumentation \<Rightarrow> EnvVar list \<Rightarrow> EnvVar list" where
  "injectSampler K newrelic env =
     (let idx = getIndexOfEnv env (EnvOTELTracesSampler K)
      in if idx = - 1 \<and> SamplerType (ISpec newrelic) \<noteq> []
         then (let idxSamplerArg = getIndexOfEnv env (EnvOTELTracesSamplerArg K)
               in if idxSamplerArg = - 1
                  then (let env = env @ [literalEnv (EnvOTELTracesSampler K)
                                           (SamplerType (ISpec newrelic))]
                        in if SamplerArgument (ISpec newrelic) \<noteq> []
                           then env @ [literalEnv (EnvOTELTracesSamplerArg K)
                                         (SamplerArgument (ISpec newrelic))]
                           else env)
                  else env)
         else env)"

text \<open>Lines 282 to 284.\<close>

definition moveResourceAttrsLast :: "constants \<Rightarrow> EnvVar list \<Rightarrow> EnvVar list" where
  "moveResourceAttrsLast K env = moveEnvToListEnd env (getIndexOfEnv env (EnvOTELResourceAttrs K))"

text \<open>
  The blocks from line 173 on, for the environment list \<open>env\<close> of the agent container
  and the resource map that \<open>createResourceMap\<close> returned.
\<close>

definition commonSDKEnv :: "constants \<Rightarrow> Instrumentation \<Rightarrow> Pod \<Rightarrow> int \<Rightarrow> strmap \<Rightarrow> EnvVar list
    \<Rightarrow> error + EnvVar list" where
  "commonSDKEnv K newrelic pod appIndex resourceMap env =
     (case injectServiceName K pod resourceMap appIndex env of
        Inl e \<Rightarrow> Inl e
      | Inr env \<Rightarrow>
          (let env = injectEndpoint K newrelic env;
               st = injectDownward K8SPodNameKey (EnvPodName K) ''metadata.name'' (env, resourceMap);
               st = (if AddK8sUIDAttributes (ISpec newrelic)
                     then injectDownward K8SPodUIDKey (EnvPodUID K) ''metadata.uid'' st
                     else st)
           in case injectServiceVersion K pod appIndex st of
                Inl e \<Rightarrow> Inl e
              | Inr st \<Rightarrow>
                  (let st = injectDownward K8SNodeNameKey (EnvNodeName K) ''spec.nodeName'' st;
                       env = injectResourceAttrs K st;
                       env = injectPropagators K newrelic env;
                       env = injectSampler K newrelic env
                   in Inr (moveResourceAttrsLast K env))))"

definition injectCommonSDKConfig :: "constants \<Rightarrow> nat \<Rightarrow> client \<Rightarrow> Instrumentation \<Rightarrow> Namespace \<Rightarrow> Pod
    \<Rightarrow> int \<Rightarrow> int \<Rightarrow> nat \<Rightarrow> (error + Pod \<times> nat) option" where
  "injectCommonSDKConfig K fuel c newrelic ns pod agentIndex appIndex n =
     (case at (Containers (Spec pod)) agentIndex of
        Inl e \<Rightarrow> Some (Inl e)
      | Inr container \<Rightarrow>
          bindR (createResourceMap K fuel c newrelic ns pod appIndex n)
            (\<lambda>(resourceMap, n').
               case commonSDKEnv K newrelic pod appIndex resourceMap (Env container) of
                 Inl e \<Rightarrow> Some (Inl e)
               | Inr env \<Rightarrow> Some (Inr (setContainerEnv pod agentIndex env, n'))))"

definition injectNewrelicConfig :: "constants \<Rightarrow> nat \<Rightarrow> client \<Rightarrow> Instrumentation \<Rightarrow> Namespace \<Rightarrow> Pod
    \<Rightarrow> int \<Rightarrow> nat \<Rightarrow> (error + Pod \<times> nat) option" where
  "injectNewrelicConfig K fuel c newrelic ns pod index n =
     (case at (Containers (Spec pod)) index of
        Inl e \<Rightarrow> Some (Inl e)
      | Inr container \<Rightarrow>
          bindR (createResourceMap K fuel c newrelic ns pod index n)
            (\<lambda>(resourceMap, n').
               case (if getIndexOfEnv (Env container) (EnvNewRelicAppName K) = - 1
                     then (case chooseServiceName pod resourceMap index of
                             Inl e \<Rightarrow> Inl e
                           | Inr v \<Rightarrow> Inr (Env container @ [literalEnv (EnvNewRelicAppName K) v]))
                     else Inr (Env container)) of
                 Inl e \<Rightarrow> Some (Inl e)
               | Inr env \<Rightarrow>
                   (let env = (if getIndexOfEnv env (EnvNewRelicLicenseKey K) = - 1
                               then env @ [\<lparr>Name = EnvNewRelicLicenseKey K, Value = [],
                                            ValueFrom = Some (SecretKeyRef ''newrelic-key-secret''
                                              ''new_relic_license_key'' True)\<rparr>]
                               else env);
                        env = (if getIndexOfEnv env (EnvNewRelicLabels K) = - 1
                               then env @ [literalEnv ''NEW_RELIC_LABELS'' ''operator:auto-injection'']
                               else env)
                    in Some (Inr (setContainerEnv pod index env, n')))))"

section \<open>instrumentation/sdk.go: inject\<close>

text \<open>
  The injectors of package \<open>apm\<close> and the function \<open>annotationValue\<close> with the annotation
  it is asked for are not among the sources. They are the parameter \<open>A\<close>. An injector
  returns a pod and an optional error.
\<close>

record collaborators =
  InjectJavaagent :: "LangSpec \<Rightarrow> Pod \<Rightarrow> int \<Rightarrow> Pod \<times> string option"
  InjectNodeJSSDK :: "LangSpec \<Rightarrow> Pod \<Rightarrow> int \<Rightarrow> Pod \<times> string option"
  InjectPythonSDK :: "LangSpec \<Rightarrow> Pod \<Rightarrow> int \<Rightarrow> Pod \<times> string option"
  InjectDotNetSDK :: "LangSpec \<Rightarrow> Pod \<Rightarrow> int \<Rightarrow> Pod \<times> string option"
  InjectPhpagent :: "LangSpec \<Rightarrow> Pod \<Rightarrow> int \<Rightarrow> Pod \<times> string option"
  InjectGoSDK :: "LangSpec \<Rightarrow> Pod \<Rightarrow> Pod \<times> string option"
  annotationValue :: "ObjectMeta \<Rightarrow> ObjectMeta \<Rightarrow> string \<Rightarrow> string"
  annotationInjectGoContainerName :: string

record languageInstrumentations =
  JavaInst :: "Instrumentation option"
  NodeJSInst :: "Instrumentation option"
  PythonInst :: "Instrumentation option"
  DotNetInst :: "Instrumentation option"
  PhpInst :: "Instrumentation option"
  GoInst :: "Instrumentation option"

text \<open>
  One of the five blocks of \<open>inject\<close> for an agent that runs in the container of the
  application (lines 63 to 117); the blocks differ in the injector and in the language
  specification only. The log line after a failed injector reads the name of the
  container at \<open>index\<close> of the pod that the injector returned.
\<close>

definition injectAgent :: "(LangSpec \<Rightarrow> Pod \<Rightarrow> int \<Rightarrow> Pod \<times> string option) \<Rightarrow> (InstrumentationSpec \<Rightarrow> LangSpec)
    \<Rightarrow> constants \<Rightarrow> nat \<Rightarrow> client \<Rightarrow> Instrumentation option \<Rightarrow> Namespace \<Rightarrow> int \<Rightarrow> Pod \<times> nat
    \<Rightarrow> (error + Pod \<times> nat) option" where
  "injectAgent injector lang K fuel c inst ns index st =
     (case st of (pod, n) \<Rightarrow>
        (case inst of
           None \<Rightarrow> Some (Inr (pod, n))
         | Some newrelic \<Rightarrow>
             (case injector (lang (ISpec newrelic)) pod index of
                (pod, Some err) \<Rightarrow>
                  (case at (Containers (Spec pod)) index of
                     Inl e \<Rightarrow> Some (Inl e)
                   | Inr container \<Rightarrow> Some (Inr (pod, n)))
              | (pod, None) \<Rightarrow> injectNewrelicConfig K fuel c newrelic ns pod index n)))"

text \<open>The block for Go (lines 118 to 135).\<close>

definition injectGo :: "collaborators \<Rightarrow> constants \<Rightarrow> nat \<Rightarrow> client \<Rightarrow> Instrumentation option \<Rightarrow> Namespace
    \<Rightarrow> Pod \<times> nat \<Rightarrow> (error + Pod \<times> nat) option" where
  "injectGo A K fuel c inst ns st =
     (case st of (pod, n) \<Rightarrow>
        (case inst of
           None \<Rightarrow> Some (Inr (pod, n))
         | Some newrelic \<Rightarrow>
             (let goContainers = annotationValue A (NMeta ns) (PMeta pod)
                                   (annotationInjectGoContainerName A);
                  index = getContainerIndex goContainers pod
              in case InjectGoSDK A (Go (ISpec newrelic)) pod of
                   (pod, Some err) \<Rightarrow>
                     (case at (Containers (Spec pod)) index of
                        Inl e \<Rightarrow> Some (Inl e)
                      | Inr container \<Rightarrow> Some (Inr (pod, n)))
                 | (pod, None) \<Rightarrow>
                     (case injectCommonEnvVar newrelic pod (int (length (Containers (Spec pod))) - 1) of
                        Inl e \<Rightarrow> Some (Inl e)
                      | Inr pod \<Rightarrow>
                          injectCommonSDKConfig K fuel c newrelic ns pod
                            (int (length (Containers (Spec pod))) - 1) 0 n))))"

definition inject :: "collaborators \<Rightarrow> constants \<Rightarrow> nat \<Rightarrow> client \<Rightarrow> languageInstrumentations \<Rightarrow> Namespace
    \<Rightarrow> Pod \<Rightarrow> string \<Rightarrow> nat \<Rightarrow> (error + Pod \<times> nat) option" where
  "inject A K fuel c insts ns pod containerName n =
     (if length (Containers (Spec pod)) < 1 then Some (Inr (pod, n))
      else
        (let index = containerSearch containerName (Containers (Spec pod)) 0 0
         in bindR (injectAgent (InjectJavaagent A) Java K fuel c (JavaInst insts) ns index (pod, n))
           (\<lambda>st. bindR (injectAgent (InjectNodeJSSDK A) NodeJS K fuel c (NodeJSInst insts) ns index st)
           (\<lambda>st. bindR (injectAgent (InjectPythonSDK A) Python K fuel c (PythonInst insts) ns index st)
           (\<lambda>st. bindR (injectAgent (InjectDotNetSDK A) DotNet K fuel c (DotNetInst insts) ns index st)
           (\<lambda>st. bindR (injectAgent (InjectPhpagent A) Php K fuel c (PhpInst insts) ns index st)
           (\<lambda>st. injectGo A K fuel c (GoInst insts) ns st)))))))"

section \<open>Definitions used to state the theorems\<close>

text \<open>
  What \<open>ownerLoop\<close> writes into the map for an owner of kind ReplicaSet, and for an
  owner of another kind.
\<close>

definition recordReplicaSet :: "bool \<Rightarrow> OwnerReference \<Rightarrow> strmap \<Rightarrow> strmap" where
  "recordReplicaSet uid owner resources =
     (if uid
      then AList.update K8SReplicaSetUIDKey (OUID owner)
             (AList.update K8SReplicaSetNameKey (OName owner) resources)
      else AList.update K8SReplicaSetNameKey (OName owner) resources)"

definition recordOwner :: "bool \<Rightarrow> OwnerReference \<Rightarrow> strmap \<Rightarrow> strmap" where
  "recordOwner uid owner resources =
     (let kind = ToLower (Kind owner);
          put = (\<lambda>nameKey uidKey.
                   if uid then AList.update uidKey (OUID owner)
                                 (AList.update nameKey (OName owner) resources)
                   else AList.update nameKey (OName owner) resources)
      in if kind = ''deployment'' then put K8SDeploymentNameKey K8SDeploymentUIDKey
         else if kind = ''statefulset'' then put K8SStatefulSetNameKey K8SStatefulSetUIDKey
         else if kind = ''daemonset'' then put K8SDaemonSetNameKey K8SDaemonSetUIDKey
         else if kind = ''job'' then put K8SJobNameKey K8SJobUIDKey
         else if kind = ''cronjob'' then put K8SCronJobNameKey K8SCronJobUIDKey
         else resources)"

text \<open>
  The keys of the owners, with the UID keys when they are asked for, and all the keys of
  the topology.
\<close>

definition ownerKeys :: "bool \<Rightarrow> string list" where
  "ownerKeys uid =
     [K8SReplicaSetNameKey, K8SDeploymentNameKey, K8SStatefulSetNameKey, K8SDaemonSetNameKey,
      K8SJobNameKey, K8SCronJobNameKey]
     @ (if uid then [K8SReplicaSetUIDKey, K8SDeploymentUIDKey, K8SStatefulSetUIDKey,
                     K8SDaemonSetUIDKey, K8SJobUIDKey, K8SCronJobUIDKey] else [])"

definition topologyKeys :: "bool \<Rightarrow> string list" where
  "topologyKeys uid =
     [K8SNamespaceNameKey, K8SContainerNameKey, K8SPodNameKey, K8SPodUIDKey, K8SNodeNameKey,
      ServiceInstanceIDKey] @ ownerKeys uid"

text \<open>Concrete inputs for the examples.\<close>

definition noLang :: LangSpec where
  "noLang = \<lparr>LImage = [], LEnv = []\<rparr>"

definition instWith :: "strmap \<Rightarrow> bool \<Rightarrow> Instrumentation" where
  "instWith attributes uid =
     \<lparr>IMeta = \<lparr>MName = ''newrelic'', UID = [], OwnerReferences = []\<rparr>,
      ISpec = \<lparr>Endpoint = [], Attributes = attributes, AddK8sUIDAttributes = uid,
               Propagators = [], SamplerType = [], SamplerArgument = [], SEnv = [],
               Java = noLang, NodeJS = noLang, Python = noLang, DotNet = noLang, Php = noLang,
               Go = noLang\<rparr>\<rparr>"

definition nsProd :: Namespace where
  "nsProd = \<lparr>NMeta = \<lparr>MName = ''prod'', UID = [], OwnerReferences = []\<rparr>\<rparr>"

definition podWith :: "OwnerReference list \<Rightarrow> Container list \<Rightarrow> Pod" where
  "podWith owners containers =
     \<lparr>PMeta = \<lparr>MName = ''web-1'', UID = [], OwnerReferences = owners\<rparr>,
      Spec = \<lparr>Containers = containers, NodeName = []\<rparr>\<rparr>"

definition notFoundClient :: client where
  "notFoundClient = \<lparr>Get = (\<lambda>n ns name. NotFound), Attempts = 20\<rparr>"

definition failingInjectors :: collaborators where
  "failingInjectors =
     \<lparr>InjectJavaagent = (\<lambda>spec pod index. (pod, Some ''unsupported'')),
      InjectNodeJSSDK = (\<lambda>spec pod index. (pod, Some ''unsupported'')),
      InjectPythonSDK = (\<lambda>spec pod index. (pod, Some ''unsupported'')),
      InjectDotNetSDK = (\<lambda>spec pod index. (pod, Some ''unsupported'')),
      InjectPhpagent = (\<lambda>spec pod index. (pod, Some ''unsupported'')),
      InjectGoSDK = (\<lambda>spec pod. (pod, Some ''unsupported'')),
      annotationValue = (\<lambda>ns pod annotation. []),
      annotationInjectGoContainerName = ''instrumentation.newrelic.com/go-container-names''\<rparr>"

text \<open>
  The position of the first variable with a name, the relation between a list and the
  same list with variables appended whose names are in a set, and the keys of a map.
\<close>

definition firstIdx :: "EnvVar list \<Rightarrow> string \<Rightarrow> nat" where
  "firstIdx envs name = length (takeWhile (\<lambda>env. Name env \<noteq> name) envs)"

definition appended :: "string set \<Rightarrow> EnvVar list \<Rightarrow> EnvVar list \<Rightarrow> bool" where
  "appended names env env' = (\<exists>xs. env' = env @ xs \<and> Name ` set xs \<subseteq> names)"

definition keysOf :: "strmap \<Rightarrow> string set" where
  "keysOf m = fst ` set m"

text \<open>
  What lines 244 to 247 put between the old value of the resource-attributes variable
  and the new attributes, and the variable with the new attributes appended.
\<close>

definition sepFor :: "string \<Rightarrow> string" where
  "sepFor old = (if HasSuffix old '','' then [] else '','')"

definition extended :: "EnvVar \<Rightarrow> strmap \<Rightarrow> EnvVar" where
  "extended env resourceMap =
     env\<lparr>Value := Value env @ sepFor (Value env) @ resourceMapToStr resourceMap\<rparr>"

text \<open>
  The key that lines 216 to 222 may add: none when the resource-attributes variable is
  there and its value contains the text \<open>service.version\<close>.
\<close>

definition versionKeys :: "constants \<Rightarrow> EnvVar list \<Rightarrow> string set" where
  "versionKeys K env =
     (if EnvOTELResourceAttrs K \<in> Name ` set env
         \<and> Contains (Value (env ! firstIdx env (EnvOTELResourceAttrs K))) ServiceVersionKey
      then {} else {ServiceVersionKey})"

definition appContainer :: "EnvVar list \<Rightarrow> Container" where
  "appContainer env = \<lparr>CName = ''app'', Image = ''app:1.2.3'', Env = env\<rparr>"

text \<open>
  The value of the resource-attributes variable after one run on a container without
  variables, and what the second run appends to it.
\<close>

definition attrsOnce :: string where
  "attrsOnce =
     ''k8s.container.name=app,k8s.namespace.name=prod,''
     @ ''k8s.node.name=$(OTEL_RESOURCE_ATTRIBUTES_NODE_NAME),k8s.pod.name=web-1,''
     @ ''service.instance.id=prod.web-1.app,service.version=1.2.3''"

definition attrsAgain :: string where
  "attrsAgain =
     '',k8s.node.name=$(OTEL_RESOURCE_ATTRIBUTES_NODE_NAME),''
     @ ''k8s.pod.name=$(OTEL_RESOURCE_ATTRIBUTES_POD_NAME)''"

definition envOnce :: "EnvVar list" where
  "envOnce =
     [literalEnv ''OTEL_SERVICE_NAME'' ''web-1'',
      fieldRefEnv ''OTEL_RESOURCE_ATTRIBUTES_NODE_NAME'' ''spec.nodeName'',
      literalEnv ''OTEL_RESOURCE_ATTRIBUTES'' attrsOnce]"

definition envTwice :: "EnvVar list" where
  "envTwice =
     [literalEnv ''OTEL_SERVICE_NAME'' ''web-1'',
      fieldRefEnv ''OTEL_RESOURCE_ATTRIBUTES_NODE_NAME'' ''spec.nodeName'',
      fieldRefEnv ''OTEL_RESOURCE_ATTRIBUTES_POD_NAME'' ''metadata.name'',
      fieldRefEnv ''OTEL_RESOURCE_ATTRIBUTES_NODE_NAME'' ''spec.nodeName'',
      literalEnv ''OTEL_RESOURCE_ATTRIBUTES'' (attrsOnce @ attrsAgain)]"

text \<open>
  The variables that one run of \<open>injectNewrelicConfig\<close> gives a container without
  variables.
\<close>

definition envNewrelic :: "EnvVar list" where
  "envNewrelic =
     [literalEnv ''NEW_RELIC_APP_NAME'' ''web-1'',
      \<lparr>Name = ''NEW_RELIC_LICENSE_KEY'', Value = [],
       ValueFrom = Some (SecretKeyRef ''newrelic-key-secret'' ''new_relic_license_key'' True)\<rparr>,
      literalEnv ''NEW_RELIC_LABELS'' ''operator:auto-injection'']"

section \<open>Lemmas on the string functions\<close>

text \<open>
  White space and capital letters outside ASCII: a no-break space (U+00A0) and an
  ideographic space (U+3000) are trimmed, and the capital I with a dot (U+0130) and the
  Kelvin sign (U+212A) are folded to \<open>i\<close> and \<open>k\<close>, as in Go.
\<close>

lemma TrimSpace_unicode:
  "TrimSpace ([CHR 0xC2, CHR 0xA0] @ '' team=a b '' @ [CHR 0xE3, CHR 0x80, CHR 0x80, CHR 0x0A])
     = ''team=a b''"
  by code_simp

lemma ToLower_unicode:
  "ToLower (''REPL'' @ [CHR 0xC4, CHR 0xB0] @ ''CASET'') = ''replicaset''
   \<and> ToLower ([CHR 0xE2, CHR 0x84, CHR 0xAA] @ ''Ind'') = ''kind''"
  by code_simp

lemma Split_not_Nil: "Split sep s \<noteq> []"
  by (induction s) (auto split: list.splits)

lemma Split_no_sep: "sep \<notin> set s \<Longrightarrow> Split sep s = [s]"
  by (induction s) auto

lemma Split_Cons_other:
  "c \<noteq> sep \<Longrightarrow> Split sep (c # cs) = (c # hd (Split sep cs)) # tl (Split sep cs)"
  using Split_not_Nil [of sep cs] by (cases "Split sep cs") auto

lemma Split_with_sep: "sep \<in> set s \<Longrightarrow> tl (Split sep s) \<noteq> []"
proof (induction s)
  case Nil
  then show ?case by simp
next
  case (Cons c cs)
  show ?case
  proof (cases "c = sep")
    case True
    then show ?thesis by (simp add: Split_not_Nil)
  next
    case False
    then have "sep \<in> set cs"
      using Cons.prems by auto
    then have "tl (Split sep cs) \<noteq> []"
      by (rule Cons.IH)
    then show ?thesis
      by (simp only: Split_Cons_other [OF False]) simp
  qed
qed

lemma last_Split: "last (Split sep s) = rev (takeWhile (\<lambda>c. c \<noteq> sep) (rev s))"
proof (induction s)
  case Nil
  show ?case by simp
next
  case (Cons c cs)
  show ?case
  proof (cases "sep \<in> set cs")
    case True
    then have tw: "takeWhile (\<lambda>c. c \<noteq> sep) (rev cs @ [c]) = takeWhile (\<lambda>c. c \<noteq> sep) (rev cs)"
      by (simp add: takeWhile_append1)
    have "last (Split sep (c # cs)) = last (Split sep cs)"
    proof (cases "c = sep")
      case True
      then show ?thesis by (simp add: Split_not_Nil)
    next
      case False
      have "last ((c # hd (Split sep cs)) # tl (Split sep cs)) = last (tl (Split sep cs))"
        using Split_with_sep [OF True] by simp
      also have "\<dots> = last (Split sep cs)"
        using Split_with_sep [OF True] by (cases "Split sep cs") auto
      finally show ?thesis
        by (simp only: Split_Cons_other [OF False])
    qed
    then show ?thesis
      using Cons.IH tw by simp
  next
    case False
    then have cs: "Split sep cs = [cs]"
      by (rule Split_no_sep)
    have app: "takeWhile (\<lambda>c. c \<noteq> sep) (rev cs @ [c]) = rev cs @ takeWhile (\<lambda>c. c \<noteq> sep) [c]"
      using False by (intro takeWhile_append2) auto
    have r: "rev (takeWhile (\<lambda>c. c \<noteq> sep) (rev (c # cs))) = (if c = sep then cs else c # cs)"
      unfolding rev.simps app by simp
    show ?thesis
      unfolding r using cs by simp
  qed
qed

lemma Contains_byte: "Contains s [c] = (c \<in> set s)"
  unfolding Contains_def
  by (induction s) (auto simp: sublist_Cons_right)

lemma at_Inr: "0 \<le> i \<Longrightarrow> i < int (length xs) \<Longrightarrow> at xs i = Inr (xs ! nat i)"
  by (simp add: at_def)

section \<open>The service version\<close>

text \<open>
  Claim C8. \<open>chooseServiceVersion\<close> returns the part of the image reference after its
  last \<open>:\<close> (the whole reference when it has none), and the empty string when that part
  contains \<open>/\<close>. An index outside the container list panics. The image
  \<open>registry:5000/app\<close> has no version, the image \<open>app:1.2.3\<close> has version \<open>1.2.3\<close>.
\<close>

theorem chooseServiceVersion_last_segment:
  "chooseServiceVersion pod index =
     (case at (Containers (Spec pod)) index of
        Inl e \<Rightarrow> Inl e
      | Inr c \<Rightarrow>
          (let tag = rev (takeWhile (\<lambda>b. b \<noteq> CHR '':'') (rev (Image c)))
           in if CHR ''/'' \<in> set tag then Inr [] else Inr tag))
   \<and> chooseServiceVersion
        \<lparr>PMeta = m, Spec = \<lparr>Containers = [\<lparr>CName = n, Image = ''registry:5000/app'', Env = es\<rparr>],
                              NodeName = nn\<rparr>\<rparr> 0 = Inr []
   \<and> chooseServiceVersion
        \<lparr>PMeta = m, Spec = \<lparr>Containers = [\<lparr>CName = n, Image = ''app:1.2.3'', Env = es\<rparr>],
                              NodeName = nn\<rparr>\<rparr> 0 = Inr ''1.2.3''"
  by (simp add: chooseServiceVersion_def last_Split Contains_byte at_def Let_def split: sum.splits)

theorem chooseServiceVersion_witness:
  "chooseServiceVersion
     \<lparr>PMeta = \<lparr>MName = ''p'', UID = '''', OwnerReferences = []\<rparr>,
      Spec = \<lparr>Containers = [\<lparr>CName = ''c'', Image = ''host:5000/team/app:2.0'', Env = []\<rparr>],
               NodeName = ''''\<rparr>\<rparr> 0 = Inr ''2.0''"
  using chooseServiceVersion_last_segment
    [of "\<lparr>PMeta = \<lparr>MName = ''p'', UID = '''', OwnerReferences = []\<rparr>,
      Spec = \<lparr>Containers = [\<lparr>CName = ''c'', Image = ''host:5000/team/app:2.0'', Env = []\<rparr>],
               NodeName = ''''\<rparr>\<rparr>" 0]
  by (simp add: at_def)

section \<open>The service name\<close>

text \<open>
  Claim C7. \<open>chooseServiceName\<close> returns the first non-empty value among the Deployment,
  StatefulSet, Job, CronJob and Pod names of the attribute map, in this order, and the
  name of the container at the index when all five are empty (a panic when that index is
  outside the container list).
\<close>

theorem chooseServiceName_first_non_empty:
  "chooseServiceName pod resources index =
     (case find (\<lambda>v. v \<noteq> [])
             (map (lookup resources)
                [K8SDeploymentNameKey, K8SStatefulSetNameKey, K8SJobNameKey, K8SCronJobNameKey,
                 K8SPodNameKey]) of
        Some v \<Rightarrow> Inr v
      | None \<Rightarrow>
          (if 0 \<le> index \<and> index < int (length (Containers (Spec pod)))
           then Inr (CName (Containers (Spec pod) ! nat index))
           else Inl IndexOutOfRange))"
  by (simp add: chooseServiceName_def at_def)

theorem chooseServiceName_witness:
  "chooseServiceName
     \<lparr>PMeta = \<lparr>MName = '''', UID = '''', OwnerReferences = []\<rparr>,
      Spec = \<lparr>Containers = [\<lparr>CName = ''web'', Image = ''app:1'', Env = []\<rparr>], NodeName = ''''\<rparr>\<rparr>
     [(''k8s.cronjob.name'', ''nightly''), (''k8s.job.name'', ''''), (''k8s.pod.name'', ''p-1'')] 0
   = Inr ''nightly''
   \<and> chooseServiceName
     \<lparr>PMeta = \<lparr>MName = '''', UID = '''', OwnerReferences = []\<rparr>,
      Spec = \<lparr>Containers = [\<lparr>CName = ''web'', Image = ''app:1'', Env = []\<rparr>], NodeName = ''''\<rparr>\<rparr>
     [(''k8s.daemonset.name'', ''ds'')] 0
   = Inr ''web''"
  using chooseServiceName_first_non_empty
    [of "\<lparr>PMeta = \<lparr>MName = '''', UID = '''', OwnerReferences = []\<rparr>,
      Spec = \<lparr>Containers = [\<lparr>CName = ''web'', Image = ''app:1'', Env = []\<rparr>], NodeName = ''''\<rparr>\<rparr>"
     "[(''k8s.cronjob.name'', ''nightly''), (''k8s.job.name'', ''''), (''k8s.pod.name'', ''p-1'')]" 0]
    chooseServiceName_first_non_empty
    [of "\<lparr>PMeta = \<lparr>MName = '''', UID = '''', OwnerReferences = []\<rparr>,
      Spec = \<lparr>Containers = [\<lparr>CName = ''web'', Image = ''app:1'', Env = []\<rparr>], NodeName = ''''\<rparr>\<rparr>"
     "[(''k8s.daemonset.name'', ''ds'')]" 0]
  by (simp add: lookup_def K8SDeploymentNameKey_def K8SStatefulSetNameKey_def K8SJobNameKey_def
      K8SCronJobNameKey_def K8SPodNameKey_def)


section \<open>Validation of the declared environment variables\<close>

lemma validateEnv_find:
  "validateEnv envs =
     map_option (\<lambda>e. envNameMessage @ Name e) (find (\<lambda>e. badEnvName (Name e)) envs)"
  by (induction envs)
     (simp_all add: badEnvName_def HasPrefix_def envNewRelicPrefix_def envOtelPrefix_def)

lemma find_app:
  "find P (xs @ ys) = (case find P xs of None \<Rightarrow> find P ys | Some x \<Rightarrow> Some x)"
  by (induction xs) simp_all

lemma find_None_set: "(find P xs = None) = (\<forall>x \<in> set xs. \<not> P x)"
  by (induction xs) simp_all

text \<open>
  Claim C9. \<open>validate\<close> fails exactly when a variable declared in the common
  specification or in one of the six language specifications has a name that starts
  with neither \<open>NEW_RELIC_\<close> nor \<open>OTEL_\<close>, and the error names the first such variable;
  otherwise it returns no error.
\<close>

theorem validate_rejects_unprefixed_names:
  "validate r =
     (case find (\<lambda>e. badEnvName (Name e)) (declaredEnvs r) of
        None \<Rightarrow> None
      | Some e \<Rightarrow> Some (envNameMessage @ Name e))
   \<and> ((validate r \<noteq> None) = (\<exists>e \<in> set (declaredEnvs r). badEnvName (Name e)))"
proof -
  have eq: "validate r =
     (case find (\<lambda>e. badEnvName (Name e)) (declaredEnvs r) of
        None \<Rightarrow> None
      | Some e \<Rightarrow> Some (envNameMessage @ Name e))"
    unfolding validate_def declaredEnvs_def validateEnv_find find_app
    by (simp split: option.splits)
  have "(validate r \<noteq> None) = (find (\<lambda>e. badEnvName (Name e)) (declaredEnvs r) \<noteq> None)"
    unfolding eq by (simp split: option.splits)
  also have "\<dots> = (\<exists>e \<in> set (declaredEnvs r). badEnvName (Name e))"
    by (simp add: find_None_set)
  finally show ?thesis
    using eq by simp
qed

theorem validate_rejects_unprefixed_names_witness:
  "validate
     \<lparr>IMeta = \<lparr>MName = ''i'', UID = '''', OwnerReferences = []\<rparr>,
      ISpec = \<lparr>Endpoint = '''', Attributes = [], AddK8sUIDAttributes = False, Propagators = [],
               SamplerType = '''', SamplerArgument = '''',
               SEnv = [\<lparr>Name = ''OTEL_LOG'', Value = ''1'', ValueFrom = None\<rparr>],
               Java = \<lparr>LImage = '''', LEnv = [\<lparr>Name = ''NEW_RELIC_X'', Value = '''', ValueFrom = None\<rparr>,
                                              \<lparr>Name = ''FOO'', Value = '''', ValueFrom = None\<rparr>]\<rparr>,
               NodeJS = \<lparr>LImage = '''', LEnv = []\<rparr>, Python = \<lparr>LImage = '''', LEnv = []\<rparr>,
               DotNet = \<lparr>LImage = '''', LEnv = []\<rparr>, Php = \<lparr>LImage = '''', LEnv = []\<rparr>,
               Go = \<lparr>LImage = '''', LEnv = [\<lparr>Name = ''BAR'', Value = '''', ValueFrom = None\<rparr>]\<rparr>\<rparr>\<rparr>
   = Some (envNameMessage @ ''FOO'')"
  using validate_rejects_unprefixed_names
    [of "\<lparr>IMeta = \<lparr>MName = ''i'', UID = '''', OwnerReferences = []\<rparr>,
      ISpec = \<lparr>Endpoint = '''', Attributes = [], AddK8sUIDAttributes = False, Propagators = [],
               SamplerType = '''', SamplerArgument = '''',
               SEnv = [\<lparr>Name = ''OTEL_LOG'', Value = ''1'', ValueFrom = None\<rparr>],
               Java = \<lparr>LImage = '''', LEnv = [\<lparr>Name = ''NEW_RELIC_X'', Value = '''', ValueFrom = None\<rparr>,
                                              \<lparr>Name = ''FOO'', Value = '''', ValueFrom = None\<rparr>]\<rparr>,
               NodeJS = \<lparr>LImage = '''', LEnv = []\<rparr>, Python = \<lparr>LImage = '''', LEnv = []\<rparr>,
               DotNet = \<lparr>LImage = '''', LEnv = []\<rparr>, Php = \<lparr>LImage = '''', LEnv = []\<rparr>,
               Go = \<lparr>LImage = '''', LEnv = [\<lparr>Name = ''BAR'', Value = '''', ValueFrom = None\<rparr>]\<rparr>\<rparr>\<rparr>"]
  by (simp add: declaredEnvs_def badEnvName_def)

section \<open>The container search\<close>

lemma containerSearch_spec:
  "(containerName \<notin> CName ` set cs \<longrightarrow> containerSearch containerName cs idx index = index)
   \<and> (containerName \<in> CName ` set cs \<longrightarrow>
        (\<exists>j < length cs. containerSearch containerName cs idx index = idx + int j
           \<and> CName (cs ! j) = containerName
           \<and> (\<forall>l. j < l \<and> l < length cs \<longrightarrow> CName (cs ! l) \<noteq> containerName)))"
proof (induction cs arbitrary: idx index)
  case Nil
  show ?case by simp
next
  case (Cons c cs)
  show ?case
  proof (cases "containerName \<in> CName ` set cs")
    case True
    then obtain j where j: "j < length cs"
      "containerSearch containerName cs (idx + 1) (if CName c = containerName then idx else index)
         = idx + 1 + int j"
      "CName (cs ! j) = containerName"
      "\<forall>l. j < l \<and> l < length cs \<longrightarrow> CName (cs ! l) \<noteq> containerName"
      using Cons.IH [of "idx + 1" "if CName c = containerName then idx else index"] by blast
    have "\<forall>l. Suc j < l \<and> l < length (c # cs) \<longrightarrow> CName ((c # cs) ! l) \<noteq> containerName"
    proof (intro allI impI)
      fix l
      assume l: "Suc j < l \<and> l < length (c # cs)"
      then obtain l' where l': "l = Suc l'"
        by (cases l) auto
      with l j(4) show "CName ((c # cs) ! l) \<noteq> containerName"
        by simp
    qed
    with j True show ?thesis
      by (intro conjI impI) (simp, rule exI [of _ "Suc j"], simp)
  next
    case False
    then have rest: "containerSearch containerName cs (idx + 1) i = i" for i
      using Cons.IH [of "idx + 1" i] by simp
    show ?thesis
    proof (cases "CName c = containerName")
      case True
      have "\<forall>l. 0 < l \<and> l < length (c # cs) \<longrightarrow> CName ((c # cs) ! l) \<noteq> containerName"
      proof (intro allI impI)
        fix l
        assume l: "0 < l \<and> l < length (c # cs)"
        then obtain l' where l': "l = Suc l'"
          by (cases l) auto
        with l have "cs ! l' \<in> set cs"
          by simp
        with False l' show "CName ((c # cs) ! l) \<noteq> containerName"
          by auto
      qed
      with True rest show ?thesis
        by (intro conjI impI) (simp, rule exI [of _ 0], simp)
    next
      case neq: False
      with False rest show ?thesis
        by simp
    qed
  qed
qed


text \<open>
  Claim C6, as amended. The search of \<open>getContainerIndex\<close>, which \<open>inject\<close> repeats, has
  no \<open>break\<close>: it returns 0 when no container has the name, and otherwise the index of
  the last container that has it, after which no container has the name. When the names
  of the containers are distinct, no container before it has the name either.
\<close>

theorem getContainerIndex_last_match:
  "getContainerIndex containerName pod = containerSearch containerName (Containers (Spec pod)) 0 0
   \<and> (containerName \<notin> CName ` set (Containers (Spec pod)) \<longrightarrow>
        getContainerIndex containerName pod = 0)
   \<and> (containerName \<in> CName ` set (Containers (Spec pod)) \<longrightarrow>
        (\<exists>j < length (Containers (Spec pod)).
           getContainerIndex containerName pod = int j
           \<and> CName (Containers (Spec pod) ! j) = containerName
           \<and> (\<forall>l. j < l \<and> l < length (Containers (Spec pod)) \<longrightarrow>
                  CName (Containers (Spec pod) ! l) \<noteq> containerName)
           \<and> (distinct (map CName (Containers (Spec pod))) \<longrightarrow>
                  (\<forall>l < j. CName (Containers (Spec pod) ! l) \<noteq> containerName))))"
proof -
  let ?cs = "Containers (Spec pod)"
  have none: "containerName \<notin> CName ` set ?cs \<longrightarrow> getContainerIndex containerName pod = 0"
    using containerSearch_spec [of containerName ?cs 0 0] by (simp add: getContainerIndex_def)
  have some: "containerName \<in> CName ` set ?cs \<longrightarrow>
        (\<exists>j < length ?cs.
           getContainerIndex containerName pod = int j
           \<and> CName (?cs ! j) = containerName
           \<and> (\<forall>l. j < l \<and> l < length ?cs \<longrightarrow> CName (?cs ! l) \<noteq> containerName)
           \<and> (distinct (map CName ?cs) \<longrightarrow> (\<forall>l < j. CName (?cs ! l) \<noteq> containerName)))"
  proof
    assume "containerName \<in> CName ` set ?cs"
    then obtain j where j: "j < length ?cs" "getContainerIndex containerName pod = int j"
      "CName (?cs ! j) = containerName"
      "\<forall>l. j < l \<and> l < length ?cs \<longrightarrow> CName (?cs ! l) \<noteq> containerName"
      using containerSearch_spec [of containerName ?cs 0 0]
      by (auto simp: getContainerIndex_def)
    have "distinct (map CName ?cs) \<longrightarrow> (\<forall>l < j. CName (?cs ! l) \<noteq> containerName)"
    proof (intro impI allI)
      fix l
      assume d: "distinct (map CName ?cs)" and l: "l < j"
      have "l < length (map CName ?cs)" "j < length (map CName ?cs)" "l \<noteq> j"
        using l j(1) by simp_all
      with d have "map CName ?cs ! l \<noteq> map CName ?cs ! j"
        by (simp only: nth_eq_iff_index_eq) simp
      then show "CName (?cs ! l) \<noteq> containerName"
        using l j(1) j(3) by simp
    qed
    with j show "\<exists>j < length ?cs.
           getContainerIndex containerName pod = int j
           \<and> CName (?cs ! j) = containerName
           \<and> (\<forall>l. j < l \<and> l < length ?cs \<longrightarrow> CName (?cs ! l) \<noteq> containerName)
           \<and> (distinct (map CName ?cs) \<longrightarrow> (\<forall>l < j. CName (?cs ! l) \<noteq> containerName))"
      by blast
  qed
  show ?thesis
    using none some by (simp add: getContainerIndex_def)
qed

theorem getContainerIndex_last_match_witness:
  "''app'' \<in> CName ` set [\<lparr>CName = ''init'', Image = ''i'', Env = []\<rparr>,
                             \<lparr>CName = ''app'', Image = ''a'', Env = []\<rparr>,
                             \<lparr>CName = ''log'', Image = ''l'', Env = []\<rparr>]
   \<and> distinct (map CName [\<lparr>CName = ''init'', Image = ''i'', Env = []\<rparr>,
                             \<lparr>CName = ''app'', Image = ''a'', Env = []\<rparr>,
                             \<lparr>CName = ''log'', Image = ''l'', Env = []\<rparr>])
   \<and> getContainerIndex ''app''
        \<lparr>PMeta = \<lparr>MName = ''p'', UID = '''', OwnerReferences = []\<rparr>,
         Spec = \<lparr>Containers = [\<lparr>CName = ''init'', Image = ''i'', Env = []\<rparr>,
                                \<lparr>CName = ''app'', Image = ''a'', Env = []\<rparr>,
                                \<lparr>CName = ''log'', Image = ''l'', Env = []\<rparr>],
                  NodeName = ''''\<rparr>\<rparr> = 1
   \<and> getContainerIndex ''web''
        \<lparr>PMeta = \<lparr>MName = ''p'', UID = '''', OwnerReferences = []\<rparr>,
         Spec = \<lparr>Containers = [\<lparr>CName = ''init'', Image = ''i'', Env = []\<rparr>,
                                \<lparr>CName = ''app'', Image = ''a'', Env = []\<rparr>,
                                \<lparr>CName = ''log'', Image = ''l'', Env = []\<rparr>],
                  NodeName = ''''\<rparr>\<rparr> = 0"
  using getContainerIndex_last_match
    [of "''app''" "\<lparr>PMeta = \<lparr>MName = ''p'', UID = '''', OwnerReferences = []\<rparr>,
         Spec = \<lparr>Containers = [\<lparr>CName = ''init'', Image = ''i'', Env = []\<rparr>,
                                \<lparr>CName = ''app'', Image = ''a'', Env = []\<rparr>,
                                \<lparr>CName = ''log'', Image = ''l'', Env = []\<rparr>],
                  NodeName = ''''\<rparr>\<rparr>"]
    getContainerIndex_last_match
    [of "''web''" "\<lparr>PMeta = \<lparr>MName = ''p'', UID = '''', OwnerReferences = []\<rparr>,
         Spec = \<lparr>Containers = [\<lparr>CName = ''init'', Image = ''i'', Env = []\<rparr>,
                                \<lparr>CName = ''app'', Image = ''a'', Env = []\<rparr>,
                                \<lparr>CName = ''log'', Image = ''l'', Env = []\<rparr>],
                  NodeName = ''''\<rparr>\<rparr>"]
  by (simp add: getContainerIndex_def)

text \<open>
  Two containers named \<open>app\<close>: the first one that matches is at index 0, the search
  returns index 1.
\<close>

theorem getContainerIndex_first_match_counterexample:
  "CName (Containers (Spec
       \<lparr>PMeta = \<lparr>MName = ''p'', UID = '''', OwnerReferences = []\<rparr>,
        Spec = \<lparr>Containers = [\<lparr>CName = ''app'', Image = ''a:1'', Env = []\<rparr>,
                               \<lparr>CName = ''app'', Image = ''a:2'', Env = []\<rparr>],
                 NodeName = ''''\<rparr>\<rparr>) ! 0) = ''app''
   \<and> getContainerIndex ''app''
       \<lparr>PMeta = \<lparr>MName = ''p'', UID = '''', OwnerReferences = []\<rparr>,
        Spec = \<lparr>Containers = [\<lparr>CName = ''app'', Image = ''a:1'', Env = []\<rparr>,
                               \<lparr>CName = ''app'', Image = ''a:2'', Env = []\<rparr>],
                 NodeName = ''''\<rparr>\<rparr> = 1
   \<and> containerSearch ''app'' [\<lparr>CName = ''app'', Image = ''a:1'', Env = []\<rparr>,
                               \<lparr>CName = ''app'', Image = ''a:2'', Env = []\<rparr>] 0 0 \<noteq> 0"
  by (simp add: getContainerIndex_def)

section \<open>inject on a pod without containers\<close>

text \<open>
  Claim C10. When the pod has no container, \<open>inject\<close> returns the pod as it is, whatever
  the injectors, the instrumentations and the container name are, and it makes no call
  to the cluster.
\<close>

theorem inject_no_containers:
  "Containers (Spec pod) = [] \<Longrightarrow>
     inject A K fuel c insts ns pod containerName n = Some (Inr (pod, n))"
  by (simp add: inject_def)

theorem inject_no_containers_witness:
  "Containers (Spec (podWith [] [])) = []
   \<and> inject failingInjectors agentNames 0 notFoundClient
        \<lparr>JavaInst = Some (instWith [] False), NodeJSInst = None, PythonInst = None,
         DotNetInst = None, PhpInst = None, GoInst = Some (instWith [] True)\<rparr>
        nsProd (podWith [] []) ''app'' 0
      = Some (Inr (podWith [] [], 0))"
proof -
  have h: "Containers (Spec (podWith [] [])) = []"
    by (simp add: podWith_def)
  show ?thesis
    using h inject_no_containers [OF h] by simp
qed

section \<open>The owners of the pod\<close>

lemma OnError_error_keeps:
  "OnError steps get n ns name rs lastErr = (True, rs', n') \<Longrightarrow> rs' = rs"
  by (induction steps arbitrary: n lastErr) (auto split: getResult.splits)

lemma OnError_all_NotFound:
  "(\<forall>k < steps. get (n + k) ns name = NotFound) \<Longrightarrow>
     OnError steps get n ns name rs lastErr = (lastErr \<or> 0 < steps, rs, n + steps)"
proof (induction steps arbitrary: n lastErr)
  case 0
  show ?case by simp
next
  case (Suc steps)
  have first: "get n ns name = NotFound"
    using Suc.prems [rule_format, of 0] by simp
  have "\<forall>k < steps. get (Suc n + k) ns name = NotFound"
  proof (intro allI impI)
    fix k
    assume "k < steps"
    then show "get (Suc n + k) ns name = NotFound"
      using Suc.prems [rule_format, of "Suc k"] by simp
  qed
  then have "OnError steps get (Suc n) ns name rs True = (True \<or> 0 < steps, rs, Suc n + steps)"
    by (rule Suc.IH)
  with first show ?case by simp
qed

lemma ownerLoop_replicaset:
  "ToLower (Kind owner) = ''replicaset'' \<Longrightarrow>
   ownerLoop (Suc fuel) c uid ns (owner # owners) (resources, n) =
     (case ownerLoop fuel c uid ns
             (OwnerReferences (fst (snd (OnError (Attempts c) (Get c) n (MName (NMeta ns)) (OName owner) emptyObjectMeta False))))
             (recordReplicaSet uid owner resources,
              snd (snd (OnError (Attempts c) (Get c) n (MName (NMeta ns)) (OName owner) emptyObjectMeta False))) of
        None \<Rightarrow> None
      | Some st' \<Rightarrow> ownerLoop (Suc fuel) c uid ns owners st')"
  by (simp add: Let_def recordReplicaSet_def split: prod.splits)

lemma ownerLoop_replicaset_0:
  "ToLower (Kind owner) = ''replicaset'' \<Longrightarrow>
   ownerLoop 0 c uid ns (owner # owners) (resources, n) = None"
  by simp

lemma ownerLoop_other:
  "ToLower (Kind owner) \<noteq> ''replicaset'' \<Longrightarrow>
   ownerLoop fuel c uid ns (owner # owners) (resources, n)
     = ownerLoop fuel c uid ns owners (recordOwner uid owner resources, n)"
  by (simp add: Let_def recordOwner_def)

lemma recordOwner_keys:
  "fst ` set (recordOwner uid owner resources) \<subseteq> fst ` set resources \<union> set (ownerKeys uid)"
  by (simp add: recordOwner_def Let_def dom_update ownerKeys_def) blast

lemma recordReplicaSet_keys:
  "fst ` set (recordReplicaSet uid owner resources) \<subseteq> fst ` set resources \<union> set (ownerKeys uid)"
  by (simp add: recordReplicaSet_def dom_update ownerKeys_def) blast

lemma subset_chain: "A \<subseteq> B \<union> K \<Longrightarrow> B \<subseteq> C \<union> K \<Longrightarrow> A \<subseteq> C \<union> K"
  by blast

lemma ownerLoop_keys:
  "ownerLoop fuel c uid ns owners st = Some st' \<Longrightarrow>
     fst ` set (fst st') \<subseteq> fst ` set (fst st) \<union> set (ownerKeys uid)"
proof (induction fuel arbitrary: owners st st')
  case 0
  then show ?case
  proof (induction owners arbitrary: st)
    case Nil
    then show ?case by simp
  next
    case (Cons owner owners)
    obtain resources n where st: "st = (resources, n)"
      by (cases st)
    show ?case
    proof (cases "ToLower (Kind owner) = ''replicaset''")
      case True
      with Cons.prems st show ?thesis
        by (simp only: ownerLoop_replicaset_0) simp
    next
      case False
      have "ownerLoop 0 c uid ns owners (recordOwner uid owner resources, n) = Some st'"
        using Cons.prems st by (simp only: ownerLoop_other [OF False])
      then have "fst ` set (fst st') \<subseteq> fst ` set (recordOwner uid owner resources) \<union> set (ownerKeys uid)"
        using Cons.IH [of "(recordOwner uid owner resources, n)"] by simp
      then show ?thesis
        unfolding st fst_conv by (rule subset_chain) (rule recordOwner_keys)
    qed
  qed
next
  case (Suc fuel)
  from Suc.prems show ?case
  proof (induction owners arbitrary: st)
    case Nil
    then show ?case by simp
  next
    case (Cons owner owners)
    obtain resources n where st: "st = (resources, n)"
      by (cases st)
    show ?case
    proof (cases "ToLower (Kind owner) = ''replicaset''")
      case True
      let ?r = "OnError (Attempts c) (Get c) n (MName (NMeta ns)) (OName owner) emptyObjectMeta False"
      from Cons.prems st obtain st1 where
        st1: "ownerLoop fuel c uid ns (OwnerReferences (fst (snd ?r)))
                (recordReplicaSet uid owner resources, snd (snd ?r)) = Some st1"
        and rest: "ownerLoop (Suc fuel) c uid ns owners st1 = Some st'"
        by (simp only: ownerLoop_replicaset [OF True]) (auto split: option.splits)
      have "fst ` set (fst st1) \<subseteq> fst ` set (recordReplicaSet uid owner resources) \<union> set (ownerKeys uid)"
        using Suc.IH [OF st1] by simp
      moreover have "fst ` set (fst st') \<subseteq> fst ` set (fst st1) \<union> set (ownerKeys uid)"
        using Cons.IH [OF rest] .
      ultimately have "fst ` set (fst st') \<subseteq> fst ` set (recordReplicaSet uid owner resources) \<union> set (ownerKeys uid)"
        by (rule subset_chain [rotated])
      then show ?thesis
        unfolding st fst_conv by (rule subset_chain) (rule recordReplicaSet_keys)
    next
      case False
      have "ownerLoop (Suc fuel) c uid ns owners (recordOwner uid owner resources, n) = Some st'"
        using Cons.prems st by (simp only: ownerLoop_other [OF False])
      then have "fst ` set (fst st') \<subseteq> fst ` set (recordOwner uid owner resources) \<union> set (ownerKeys uid)"
        using Cons.IH [of "(recordOwner uid owner resources, n)"] by simp
      then show ?thesis
        unfolding st fst_conv by (rule subset_chain) (rule recordOwner_keys)
    qed
  qed
qed


lemma ownerLoop_failed_lookup:
  assumes kind: "ToLower (Kind owner) = ''replicaset''"
    and fails: "fst (OnError (Attempts c) (Get c) n (MName (NMeta ns)) (OName owner) emptyObjectMeta False)"
  shows "ownerLoop (Suc fuel) c uid ns (owner # owners) (resources, n)
           = ownerLoop (Suc fuel) c uid ns owners
               (recordReplicaSet uid owner resources,
                snd (snd (OnError (Attempts c) (Get c) n (MName (NMeta ns)) (OName owner) emptyObjectMeta False)))"
proof -
  let ?r = "OnError (Attempts c) (Get c) n (MName (NMeta ns)) (OName owner) emptyObjectMeta False"
  obtain rs n' where r: "?r = (True, rs, n')"
    using fails by (cases ?r) auto
  then have rs: "rs = emptyObjectMeta"
    by (rule OnError_error_keeps)
  show ?thesis
    unfolding ownerLoop_replicaset [OF kind] r rs
    by (simp add: emptyObjectMeta_def)
qed

text \<open>
  Claim C5. Let the first owner of an object be a ReplicaSet whose lookup ends with an
  error, which is the case when every call that the back-off allows answers not found. Then
  \<open>addParentResourceLabels\<close> writes the name of the ReplicaSet, and its UID when UIDs are
  asked for, and goes on with the other owners of the object from there: the call on the
  metadata of the ReplicaSet finds no owner and adds nothing. With no other owner it
  returns this map, and \<open>createResourceMap\<close> returns a map for a pod whose only owner is
  this ReplicaSet.
\<close>

theorem addParentResourceLabels_lookup_fails:
  assumes kind: "ToLower (Kind owner) = ''replicaset''"
    and owners: "OwnerReferences objectMeta = owner # owners"
    and fails: "fst (OnError (Attempts c) (Get c) n (MName (NMeta ns)) (OName owner) emptyObjectMeta False)"
  shows "addParentResourceLabels (Suc fuel) c uid ns objectMeta (resources, n)
           = ownerLoop (Suc fuel) c uid ns owners
               (recordReplicaSet uid owner resources,
                snd (snd (OnError (Attempts c) (Get c) n (MName (NMeta ns)) (OName owner) emptyObjectMeta False)))
         \<and> (owners = [] \<longrightarrow>
              addParentResourceLabels (Suc fuel) c uid ns objectMeta (resources, n)
                = Some (recordReplicaSet uid owner resources,
                        snd (snd (OnError (Attempts c) (Get c) n (MName (NMeta ns)) (OName owner) emptyObjectMeta False))))
         \<and> ((\<forall>k < Attempts c. Get c (n + k) (MName (NMeta ns)) (OName owner) = NotFound) \<longrightarrow>
              OnError (Attempts c) (Get c) n (MName (NMeta ns)) (OName owner) emptyObjectMeta False
                = (True, emptyObjectMeta, n + Attempts c))
         \<and> (OwnerReferences (PMeta pod) = [owner] \<and> 0 \<le> index
              \<and> index < int (length (Containers (Spec pod))) \<longrightarrow>
              (\<exists>res. createResourceMap K (Suc fuel) c newrelic ns pod index n
                 = Some (Inr (res,
                     snd (snd (OnError (Attempts c) (Get c) n (MName (NMeta ns)) (OName owner) emptyObjectMeta False))))))"
proof -
  let ?r = "OnError (Attempts c) (Get c) n (MName (NMeta ns)) (OName owner) emptyObjectMeta False"
  have main: "addParentResourceLabels (Suc fuel) c uid ns objectMeta (resources, n)
           = ownerLoop (Suc fuel) c uid ns owners (recordReplicaSet uid owner resources, snd (snd ?r))"
    unfolding addParentResourceLabels_def owners
    by (rule ownerLoop_failed_lookup [OF kind fails])
  have pos: "0 < Attempts c"
    using fails by (cases "Attempts c") auto
  have exhaust: "(\<forall>k < Attempts c. Get c (n + k) (MName (NMeta ns)) (OName owner) = NotFound) \<longrightarrow>
      ?r = (True, emptyObjectMeta, n + Attempts c)"
    using OnError_all_NotFound [of "Attempts c" "Get c" n "MName (NMeta ns)" "OName owner"
        emptyObjectMeta False] pos
    by simp
  have whole: "OwnerReferences (PMeta pod) = [owner] \<and> 0 \<le> index
              \<and> index < int (length (Containers (Spec pod))) \<longrightarrow>
              (\<exists>res. createResourceMap K (Suc fuel) c newrelic ns pod index n
                 = Some (Inr (res, snd (snd ?r))))"
  proof
    assume a: "OwnerReferences (PMeta pod) = [owner] \<and> 0 \<le> index
              \<and> index < int (length (Containers (Spec pod)))"
    have "addParentResourceLabels (Suc fuel) c (AddK8sUIDAttributes (ISpec newrelic)) ns (PMeta pod)
            (k8sResourcesOf ns pod (Containers (Spec pod) ! nat index), n)
          = Some (recordReplicaSet (AddK8sUIDAttributes (ISpec newrelic)) owner
                    (k8sResourcesOf ns pod (Containers (Spec pod) ! nat index)), snd (snd ?r))"
      unfolding addParentResourceLabels_def
      using a ownerLoop_failed_lookup [OF kind fails, of fuel "AddK8sUIDAttributes (ISpec newrelic)" "[]"]
      by simp
    then show "\<exists>res. createResourceMap K (Suc fuel) c newrelic ns pod index n
                 = Some (Inr (res, snd (snd ?r)))"
      using a by (simp add: createResourceMap_def at_def Let_def)
  qed
  show ?thesis
    using main exhaust whole by simp
qed

theorem addParentResourceLabels_lookup_fails_witness:
  "ToLower (Kind \<lparr>Kind = ''ReplicaSet'', OName = ''web-rs'', OUID = ''u1''\<rparr>) = ''replicaset''
   \<and> fst (OnError (Attempts notFoundClient) (Get notFoundClient) 0 ''prod'' ''web-rs'' emptyObjectMeta False)
   \<and> OnError (Attempts notFoundClient) (Get notFoundClient) 0 ''prod'' ''web-rs'' emptyObjectMeta False = (True, emptyObjectMeta, 20)
   \<and> addParentResourceLabels 1 notFoundClient True nsProd
        \<lparr>MName = ''web-1'', UID = ''u0'',
         OwnerReferences = [\<lparr>Kind = ''ReplicaSet'', OName = ''web-rs'', OUID = ''u1''\<rparr>]\<rparr>
        ([(''k8s.pod.name'', ''web-1'')], 0)
      = Some ([(''k8s.pod.name'', ''web-1''), (''k8s.replicaset.name'', ''web-rs''),
               (''k8s.replicaset.uid'', ''u1'')], 20)
   \<and> (\<exists>res. createResourceMap agentNames 1 notFoundClient (instWith [] False) nsProd
         (podWith [\<lparr>Kind = ''ReplicaSet'', OName = ''web-rs'', OUID = ''u1''\<rparr>]
            [\<lparr>CName = ''app'', Image = ''app:1.2.3'', Env = []\<rparr>]) 0 0
       = Some (Inr (res, 20)))"
proof -
  have kind: "ToLower (Kind \<lparr>Kind = ''ReplicaSet'', OName = ''web-rs'', OUID = ''u1''\<rparr>) = ''replicaset''"
    by (simp add: toLowerByte_def)
  have err: "OnError (Attempts notFoundClient) (Get notFoundClient) 0 ''prod'' ''web-rs'' emptyObjectMeta False
               = (True, emptyObjectMeta, 20)"
    by code_simp
  have err': "OnError (Attempts notFoundClient) (Get notFoundClient) 0 (MName (NMeta nsProd))
                 (OName \<lparr>Kind = ''ReplicaSet'', OName = ''web-rs'', OUID = ''u1''\<rparr>) emptyObjectMeta False
               = (True, emptyObjectMeta, 20)"
    by code_simp
  have fails: "fst (OnError (Attempts notFoundClient) (Get notFoundClient) 0 (MName (NMeta nsProd))
                 (OName \<lparr>Kind = ''ReplicaSet'', OName = ''web-rs'', OUID = ''u1''\<rparr>) emptyObjectMeta False)"
    unfolding err' by simp
  have owners: "OwnerReferences \<lparr>MName = ''web-1'', UID = ''u0'',
         OwnerReferences = [\<lparr>Kind = ''ReplicaSet'', OName = ''web-rs'', OUID = ''u1''\<rparr>]\<rparr>
      = \<lparr>Kind = ''ReplicaSet'', OName = ''web-rs'', OUID = ''u1''\<rparr> # []"
    by simp
  note inst = addParentResourceLabels_lookup_fails [OF kind owners fails,
        of 0 True "[(''k8s.pod.name'', ''web-1'')]"
           "podWith [\<lparr>Kind = ''ReplicaSet'', OName = ''web-rs'', OUID = ''u1''\<rparr>]
              [\<lparr>CName = ''app'', Image = ''app:1.2.3'', Env = []\<rparr>]" 0 agentNames "instWith [] False",
        unfolded err']
  show ?thesis
    using inst kind err
    by (simp add: recordReplicaSet_def K8SReplicaSetNameKey_def K8SReplicaSetUIDKey_def
        podWith_def)
qed

section \<open>The resource map\<close>

lemma set_update_subset: "set (AList.update k v al) \<subseteq> insert (k, v) (set al)"
  by (induction al) auto

lemma fold_update_entries:
  "(k, v) \<in> set (fold (\<lambda>(k, v) res. if P k v then AList.update k v res else res) xs res0) \<Longrightarrow>
     (k, v) \<in> set res0 \<or> ((k, v) \<in> set xs \<and> P k v)"
proof (induction xs arbitrary: res0)
  case Nil
  then show ?case by simp
next
  case (Cons x xs)
  obtain a b where x: "x = (a, b)"
    by (cases x)
  let ?res1 = "if P a b then AList.update a b res0 else res0"
  from Cons.prems x have "(k, v) \<in> set (fold (\<lambda>(k, v) res. if P k v then AList.update k v res else res) xs ?res1)"
    by simp
  then have "(k, v) \<in> set ?res1 \<or> ((k, v) \<in> set xs \<and> P k v)"
    by (rule Cons.IH)
  then show ?case
    using set_update_subset [of a b res0] x by (auto split: if_splits)
qed

lemma fold_update_distinct:
  "distinct (map fst res0) \<Longrightarrow>
     distinct (map fst (fold (\<lambda>(k, v) res. if P k v then AList.update k v res else res) xs res0))"
  by (induction xs arbitrary: res0) (auto simp: distinct_update)

lemma k8sResourcesOf_keys:
  "fst ` set (k8sResourcesOf ns pod container) \<subseteq> set (topologyKeys uid)"
  by (simp add: k8sResourcesOf_def dom_update topologyKeys_def)

lemma createResourceMap_entries_aux:
  assumes "createResourceMap K fuel c newrelic ns pod index n = Some (Inr (res, n'))"
  shows "0 \<le> index \<and> index < int (length (Containers (Spec pod)))
         \<and> distinct (map fst res)
         \<and> (\<forall>(k, v) \<in> set res.
               k \<notin> set (existingResOf K (Env (Containers (Spec pod) ! nat index)))
               \<and> ((k, v) \<in> set (Attributes (ISpec newrelic))
                    \<or> (v \<noteq> [] \<and> k \<in> set (topologyKeys (AddK8sUIDAttributes (ISpec newrelic))))))"
proof -
  let ?uid = "AddK8sUIDAttributes (ISpec newrelic)"
  from assms have range: "0 \<le> index \<and> index < int (length (Containers (Spec pod)))"
    by (auto simp: createResourceMap_def at_def split: if_splits)
  define container where "container = Containers (Spec pod) ! nat index"
  have at: "at (Containers (Spec pod)) index = Inr container"
    using range by (simp add: at_def container_def)
  define existingRes where "existingRes = existingResOf K (Env container)"
  define res0 where "res0 = fold (\<lambda>(k, v) res. if k \<notin> set existingRes then AList.update k v res else res)
                       (Attributes (ISpec newrelic)) []"
  from assms at obtain k8s where
    owners: "addParentResourceLabels fuel c ?uid ns (PMeta pod) (k8sResourcesOf ns pod container, n)
               = Some (k8s, n')"
    and res: "res = fold (\<lambda>(k, v) res. if k \<notin> set existingRes \<and> v \<noteq> [] then AList.update k v res else res)
                      k8s res0"
    by (auto simp: createResourceMap_def Let_def existingRes_def res0_def split: option.splits)
  have k8s_keys: "fst ` set k8s \<subseteq> set (topologyKeys ?uid)"
  proof -
    have "fst ` set (fst (k8s, n')) \<subseteq> fst ` set (fst (k8sResourcesOf ns pod container, n)) \<union> set (ownerKeys ?uid)"
      using owners unfolding addParentResourceLabels_def by (rule ownerLoop_keys)
    moreover have "set (ownerKeys ?uid) \<subseteq> set (topologyKeys ?uid)"
      by (simp add: topologyKeys_def) blast
    ultimately show ?thesis
      using k8sResourcesOf_keys [of ns pod container ?uid] by (simp only: fst_conv) blast
  qed
  have d: "distinct (map fst res)"
    unfolding res res0_def by (intro fold_update_distinct) simp
  have e: "\<forall>(k, v) \<in> set res.
               k \<notin> set existingRes
               \<and> ((k, v) \<in> set (Attributes (ISpec newrelic)) \<or> (v \<noteq> [] \<and> k \<in> set (topologyKeys ?uid)))"
  proof (clarify)
    fix k v
    assume kv: "(k, v) \<in> set res"
    from kv have "(k, v) \<in> set res0 \<or> ((k, v) \<in> set k8s \<and> (k \<notin> set existingRes \<and> v \<noteq> []))"
      unfolding res by (rule fold_update_entries)
    moreover have "(k, v) \<in> set res0 \<Longrightarrow> (k, v) \<in> set (Attributes (ISpec newrelic)) \<and> k \<notin> set existingRes"
      using fold_update_entries [of k v "\<lambda>k v. k \<notin> set existingRes" "Attributes (ISpec newrelic)" "[]"]
      unfolding res0_def by simp
    moreover have "(k, v) \<in> set k8s \<Longrightarrow> k \<in> set (topologyKeys ?uid)"
      using k8s_keys by force
    ultimately show "k \<notin> set existingRes
               \<and> ((k, v) \<in> set (Attributes (ISpec newrelic)) \<or> (v \<noteq> [] \<and> k \<in> set (topologyKeys ?uid)))"
      by blast
  qed
  show ?thesis
    using range d e unfolding existingRes_def container_def by simp
qed

text \<open>
  Claim C4, as amended. The map that \<open>createResourceMap\<close> returns has one entry for each
  key. No key of it is declared by the resource-attributes variable of the container.
  Each entry is a declared attribute of the instrumentation with the value it was
  declared with, which may be empty, or has a non-empty value and one of the keys of
  the topology, the UID keys of the owners among them only when UIDs are asked for.
\<close>

theorem createResourceMap_entries:
  assumes "createResourceMap K fuel c newrelic ns pod index n = Some (Inr (res, n'))"
  shows "0 \<le> index \<and> index < int (length (Containers (Spec pod)))
         \<and> distinct (map fst res)
         \<and> (\<forall>(k, v) \<in> set res.
               k \<notin> set (existingResOf K (Env (Containers (Spec pod) ! nat index)))
               \<and> ((k, v) \<in> set (Attributes (ISpec newrelic))
                    \<or> (v \<noteq> [] \<and> k \<in> set (topologyKeys (AddK8sUIDAttributes (ISpec newrelic))))))"
  using createResourceMap_entries_aux [OF assms] .

theorem createResourceMap_entries_witness:
  "createResourceMap agentNames 0 notFoundClient (instWith [(''team'', ''core'')] False) nsProd
     (podWith [\<lparr>Kind = ''Deployment'', OName = ''web'', OUID = ''d1''\<rparr>]
        [\<lparr>CName = ''app'', Image = ''app:1.2.3'',
          Env = [literalEnv ''OTEL_RESOURCE_ATTRIBUTES'' ''k8s.namespace.name=custom'']\<rparr>]) 0 0
   = Some (Inr ([(''team'', ''core''), (''k8s.container.name'', ''app''),
                 (''k8s.pod.name'', ''web-1''), (''service.instance.id'', ''prod.web-1.app''),
                 (''k8s.deployment.name'', ''web'')], 0))
   \<and> list_all (\<lambda>(k, v). k \<noteq> ''k8s.namespace.name''
         \<and> ((k, v) = (''team'', ''core'') \<or> (v \<noteq> [] \<and> k \<in> set (topologyKeys False))))
       [(''team'', ''core''), (''k8s.container.name'', ''app''),
        (''k8s.pod.name'', ''web-1''), (''service.instance.id'', ''prod.web-1.app''),
        (''k8s.deployment.name'', ''web'')]"
proof -
  have h: "createResourceMap agentNames 0 notFoundClient (instWith [(''team'', ''core'')] False) nsProd
     (podWith [\<lparr>Kind = ''Deployment'', OName = ''web'', OUID = ''d1''\<rparr>]
        [\<lparr>CName = ''app'', Image = ''app:1.2.3'',
          Env = [literalEnv ''OTEL_RESOURCE_ATTRIBUTES'' ''k8s.namespace.name=custom'']\<rparr>]) 0 0
   = Some (Inr ([(''team'', ''core''), (''k8s.container.name'', ''app''),
                 (''k8s.pod.name'', ''web-1''), (''service.instance.id'', ''prod.web-1.app''),
                 (''k8s.deployment.name'', ''web'')], 0))"
    by code_simp
  have ex: "existingResOf agentNames
              [literalEnv ''OTEL_RESOURCE_ATTRIBUTES'' ''k8s.namespace.name=custom'']
            = [''k8s.namespace.name'']"
    by code_simp
  show ?thesis
    using h createResourceMap_entries [OF h] ex
    by (simp add: podWith_def instWith_def)
qed

text \<open>
  An instrumentation that declares the attribute \<open>team\<close> with the empty value: the map
  has the entry, with the empty value.
\<close>

theorem createResourceMap_empty_value_counterexample:
  "createResourceMap agentNames 0 notFoundClient (instWith [(''team'', [])] False) nsProd
     (podWith [] [\<lparr>CName = ''app'', Image = ''app:1.2.3'', Env = []\<rparr>]) 0 0
   = Some (Inr ([(''team'', []), (''k8s.namespace.name'', ''prod''),
                 (''k8s.container.name'', ''app''), (''k8s.pod.name'', ''web-1''),
                 (''service.instance.id'', ''prod.web-1.app'')], 0))
   \<and> lookup [(''team'', []), (''k8s.namespace.name'', ''prod''),
              (''k8s.container.name'', ''app''), (''k8s.pod.name'', ''web-1''),
              (''service.instance.id'', ''prod.web-1.app'')] ''team'' = []
   \<and> (''team'', []) \<in> set [(''team'', []), (''k8s.namespace.name'', ''prod''),
              (''k8s.container.name'', ''app''), (''k8s.pod.name'', ''web-1''),
              (''service.instance.id'', ''prod.web-1.app'')]"
proof -
  have "createResourceMap agentNames 0 notFoundClient (instWith [(''team'', [])] False) nsProd
     (podWith [] [\<lparr>CName = ''app'', Image = ''app:1.2.3'', Env = []\<rparr>]) 0 0
   = Some (Inr ([(''team'', []), (''k8s.namespace.name'', ''prod''),
                 (''k8s.container.name'', ''app''), (''k8s.pod.name'', ''web-1''),
                 (''service.instance.id'', ''prod.web-1.app'')], 0))"
    by code_simp
  then show ?thesis
    by (simp add: lookup_def)
qed

section \<open>The environment list\<close>

lemma getIndexOfEnvFrom_eq:
  "getIndexOfEnvFrom envs name i =
     (if name \<in> Name ` set envs then i + int (firstIdx envs name) else - 1)"
  by (induction envs arbitrary: i) (auto simp: firstIdx_def)

lemma getIndexOfEnv_eq:
  "getIndexOfEnv envs name =
     (if name \<in> Name ` set envs then int (firstIdx envs name) else - 1)"
  by (simp add: getIndexOfEnv_def getIndexOfEnvFrom_eq)

lemma firstIdx_less: "name \<in> Name ` set envs \<Longrightarrow> firstIdx envs name < length envs"
  by (induction envs) (auto simp: firstIdx_def)

lemma firstIdx_Name: "name \<in> Name ` set envs \<Longrightarrow> Name (envs ! firstIdx envs name) = name"
  by (induction envs) (auto simp: firstIdx_def)

lemma firstIdx_before: "l < firstIdx envs name \<Longrightarrow> Name (envs ! l) \<noteq> name"
proof (induction envs arbitrary: l)
  case Nil
  then show ?case by (simp add: firstIdx_def)
next
  case (Cons e envs)
  then show ?case
    by (cases l) (auto simp: firstIdx_def split: if_splits)
qed

lemma firstIdx_append:
  "name \<in> Name ` set envs \<Longrightarrow> firstIdx (envs @ xs) name = firstIdx envs name"
  by (induction envs) (auto simp: firstIdx_def)

lemma firstIdx_append_absent:
  "name \<notin> Name ` set envs \<Longrightarrow> firstIdx (envs @ xs) name = length envs + firstIdx xs name"
  by (induction envs) (auto simp: firstIdx_def)

lemma firstIdx_names:
  "map Name envs = map Name envs' \<Longrightarrow> firstIdx envs name = firstIdx envs' name"
proof (induction envs arbitrary: envs')
  case Nil
  then show ?case by (simp add: firstIdx_def)
next
  case (Cons e envs)
  then obtain e' es' where "envs' = e' # es'" "Name e = Name e'" "map Name envs = map Name es'"
    by (cases envs') auto
  with Cons.IH [of es'] show ?case
    by (simp add: firstIdx_def)
qed

lemma moveEnvToListEnd_shape:
  "name \<in> Name ` set envs \<Longrightarrow>
   moveEnvToListEnd envs (getIndexOfEnv envs name) =
     take (firstIdx envs name) envs @ drop (Suc (firstIdx envs name)) envs
       @ [envs ! firstIdx envs name]"
  using firstIdx_less [of name envs]
  by (simp add: moveEnvToListEnd_def getIndexOfEnv_eq Let_def)

lemma moveEnvToListEnd_absent:
  "name \<notin> Name ` set envs \<Longrightarrow> moveEnvToListEnd envs (getIndexOfEnv envs name) = envs"
  by (simp add: moveEnvToListEnd_def getIndexOfEnv_eq)

lemma appended_refl: "appended names env env"
  by (simp add: appended_def)

lemma appended_trans:
  "appended A env env' \<Longrightarrow> appended B env' env'' \<Longrightarrow> appended (A \<union> B) env env''"
  unfolding appended_def by (elim exE conjE) (rule_tac x = "xs @ xsa" in exI, auto)

lemma appended_mono: "appended A env env' \<Longrightarrow> A \<subseteq> B \<Longrightarrow> appended B env env'"
  unfolding appended_def by blast

lemma keysOf_update: "keysOf (AList.update k v m) = insert k (keysOf m)"
  by (simp add: keysOf_def dom_update)

lemma lookup_keys: "lookup m k \<noteq> [] \<Longrightarrow> k \<in> keysOf m"
  unfolding keysOf_def
  by (auto simp: lookup_def split: option.splits dest: map_of_SomeD intro: rev_image_eqI)

lemma injectServiceName_appended:
  "injectServiceName K pod resourceMap appIndex env = Inr env' \<Longrightarrow>
     appended {EnvOTELServiceName K} env env'"
  by (auto simp: injectServiceName_def appended_def literalEnv_def Let_def
      split: if_splits sum.splits)

lemma injectEndpoint_appended:
  "appended {EnvOTELExporterOTLPEndpoint K} env (injectEndpoint K newrelic env)"
  by (auto simp: injectEndpoint_def appended_def literalEnv_def Let_def)

lemma injectDownward_result:
  "injectDownward key envName fieldPath (env, resourceMap) = (env', resourceMap') \<Longrightarrow>
     appended {envName} env env'
     \<and> key \<in> keysOf resourceMap'
     \<and> keysOf resourceMap \<subseteq> keysOf resourceMap'
     \<and> keysOf resourceMap' \<subseteq> insert key (keysOf resourceMap)"
  by (auto simp: injectDownward_def appended_def fieldRefEnv_def keysOf_update lookup_keys
      split: if_splits)

lemma injectServiceVersion_result:
  "injectServiceVersion K pod appIndex (env, resourceMap) = Inr (env', resourceMap') \<Longrightarrow>
     env' = env
     \<and> keysOf resourceMap \<subseteq> keysOf resourceMap'
     \<and> keysOf resourceMap' \<subseteq> keysOf resourceMap
          \<union> (if EnvOTELResourceAttrs K \<in> Name ` set env
                 \<and> Contains (Value (env ! firstIdx env (EnvOTELResourceAttrs K))) ServiceVersionKey
              then {} else {ServiceVersionKey})"
  by (auto simp: injectServiceVersion_def getIndexOfEnv_eq Let_def keysOf_update
      split: if_splits sum.splits)

lemma injectPropagators_appended:
  "appended {EnvOTELPropagators K} env (injectPropagators K newrelic env)"
  by (auto simp: injectPropagators_def appended_def literalEnv_def Let_def)

lemma injectSampler_appended:
  "appended {EnvOTELTracesSampler K, EnvOTELTracesSamplerArg K} env (injectSampler K newrelic env)"
  by (auto simp: injectSampler_def appended_def literalEnv_def Let_def)

lemma injectResourceAttrs_present:
  "EnvOTELResourceAttrs K \<in> Name ` set env \<Longrightarrow>
   injectResourceAttrs K (env, resourceMap) =
     env[firstIdx env (EnvOTELResourceAttrs K) :=
           (env ! firstIdx env (EnvOTELResourceAttrs K))
             \<lparr>Value := Value (env ! firstIdx env (EnvOTELResourceAttrs K))
                         @ sepFor (Value (env ! firstIdx env (EnvOTELResourceAttrs K)))
                         @ resourceMapToStr resourceMap\<rparr>]"
  by (simp add: injectResourceAttrs_def getIndexOfEnv_eq Let_def sepFor_def)

lemma injectResourceAttrs_absent:
  "EnvOTELResourceAttrs K \<notin> Name ` set env \<Longrightarrow>
   injectResourceAttrs K (env, resourceMap) =
     env @ [literalEnv (EnvOTELResourceAttrs K) (resourceMapToStr resourceMap)]"
  by (simp add: injectResourceAttrs_def getIndexOfEnv_eq Let_def)

lemma versionKeys_appended:
  assumes "appended A env env'"
  shows "versionKeys K env' \<subseteq> versionKeys K env"
proof (cases "EnvOTELResourceAttrs K \<in> Name ` set env")
  case True
  from assms obtain xs where xs: "env' = env @ xs"
    by (auto simp: appended_def)
  have "firstIdx env' (EnvOTELResourceAttrs K) = firstIdx env (EnvOTELResourceAttrs K)"
    unfolding xs using True by (rule firstIdx_append)
  moreover have "env' ! firstIdx env (EnvOTELResourceAttrs K) = env ! firstIdx env (EnvOTELResourceAttrs K)"
    unfolding xs using firstIdx_less [OF True] by (simp add: nth_append)
  moreover have "EnvOTELResourceAttrs K \<in> Name ` set env'"
    unfolding xs using True by auto
  ultimately show ?thesis
    using True by (simp add: versionKeys_def)
next
  case False
  then show ?thesis
    by (simp add: versionKeys_def)
qed

lemma commonSDKEnv_result:
  assumes "commonSDKEnv K newrelic pod appIndex resourceMap env = Inr env'"
  shows "\<exists>env6 rm6 ys.
           env' = moveResourceAttrsLast K (injectResourceAttrs K (env6, rm6) @ ys)
           \<and> appended {EnvOTELServiceName K, EnvOTELExporterOTLPEndpoint K, EnvPodName K,
                       EnvPodUID K, EnvNodeName K} env env6
           \<and> Name ` set ys \<subseteq> {EnvOTELPropagators K, EnvOTELTracesSampler K,
                                EnvOTELTracesSamplerArg K}
           \<and> K8SPodNameKey \<in> keysOf rm6
           \<and> keysOf rm6 \<subseteq> keysOf resourceMap \<union> {K8SPodNameKey, K8SNodeNameKey}
                \<union> (if AddK8sUIDAttributes (ISpec newrelic) then {K8SPodUIDKey} else {})
                \<union> versionKeys K env"
proof -
  let ?uid = "AddK8sUIDAttributes (ISpec newrelic)"
  from assms obtain env1 where s1: "injectServiceName K pod resourceMap appIndex env = Inr env1"
    by (auto simp: commonSDKEnv_def split: sum.splits)
  define env2 where "env2 = injectEndpoint K newrelic env1"
  obtain env3 rm3 where s3:
    "injectDownward K8SPodNameKey (EnvPodName K) ''metadata.name'' (env2, resourceMap) = (env3, rm3)"
    by (cases "injectDownward K8SPodNameKey (EnvPodName K) ''metadata.name'' (env2, resourceMap)")
  obtain env4 rm4 where s4:
    "(if ?uid then injectDownward K8SPodUIDKey (EnvPodUID K) ''metadata.uid'' (env3, rm3)
      else (env3, rm3)) = (env4, rm4)"
    by (cases "if ?uid then injectDownward K8SPodUIDKey (EnvPodUID K) ''metadata.uid'' (env3, rm3)
      else (env3, rm3)")
  have unfolded: "commonSDKEnv K newrelic pod appIndex resourceMap env =
      (case injectServiceVersion K pod appIndex (env4, rm4) of
         Inl e \<Rightarrow> Inl e
       | Inr st \<Rightarrow>
           Inr (moveResourceAttrsLast K (injectSampler K newrelic (injectPropagators K newrelic
                  (injectResourceAttrs K
                     (injectDownward K8SNodeNameKey (EnvNodeName K) ''spec.nodeName'' st))))))"
  proof (cases ?uid)
    case True
    with s4 have "injectDownward K8SPodUIDKey (EnvPodUID K) ''metadata.uid'' (env3, rm3) = (env4, rm4)"
      by simp
    then show ?thesis
      by (simp add: commonSDKEnv_def s1 env2_def [symmetric] s3 True Let_def split: sum.splits)
  next
    case False
    with s4 have "env3 = env4" "rm3 = rm4"
      by simp_all
    then show ?thesis
      by (simp add: commonSDKEnv_def s1 env2_def [symmetric] s3 False Let_def split: sum.splits)
  qed
  from assms obtain env5 rm5 where s5:
    "injectServiceVersion K pod appIndex (env4, rm4) = Inr (env5, rm5)"
    unfolding unfolded by (auto split: sum.splits)
  obtain env6 rm6 where s6:
    "injectDownward K8SNodeNameKey (EnvNodeName K) ''spec.nodeName'' (env5, rm5) = (env6, rm6)"
    by (cases "injectDownward K8SNodeNameKey (EnvNodeName K) ''spec.nodeName'' (env5, rm5)")
  define env7 where "env7 = injectResourceAttrs K (env6, rm6)"
  define env8 where "env8 = injectPropagators K newrelic env7"
  have res: "env' = moveResourceAttrsLast K (injectSampler K newrelic env8)"
    using assms unfolding unfolded s5 env8_def env7_def
    by (simp add: s6)
  have a1: "appended {EnvOTELServiceName K} env env1"
    using s1 by (rule injectServiceName_appended)
  have a2: "appended {EnvOTELExporterOTLPEndpoint K} env1 env2"
    unfolding env2_def by (rule injectEndpoint_appended)
  note r3 = injectDownward_result [OF s3]
  have r4: "appended {EnvPodUID K} env3 env4 \<and> keysOf rm3 \<subseteq> keysOf rm4
            \<and> keysOf rm4 \<subseteq> keysOf rm3 \<union> (if ?uid then {K8SPodUIDKey} else {})"
  proof (cases ?uid)
    case True
    with s4 have "injectDownward K8SPodUIDKey (EnvPodUID K) ''metadata.uid'' (env3, rm3) = (env4, rm4)"
      by simp
    from injectDownward_result [OF this] True show ?thesis
      by auto
  next
    case False
    with s4 show ?thesis
      by (simp add: appended_refl)
  qed
  note r5 = injectServiceVersion_result [OF s5]
  note r6 = injectDownward_result [OF s6]
  have a12: "appended ({EnvOTELServiceName K} \<union> {EnvOTELExporterOTLPEndpoint K}) env env2"
    using a1 a2 by (rule appended_trans)
  have a13: "appended ({EnvOTELServiceName K} \<union> {EnvOTELExporterOTLPEndpoint K} \<union> {EnvPodName K}) env env3"
    using a12 r3 [THEN conjunct1] by (rule appended_trans)
  have a14: "appended ({EnvOTELServiceName K} \<union> {EnvOTELExporterOTLPEndpoint K} \<union> {EnvPodName K}
                \<union> {EnvPodUID K}) env env4"
    using a13 r4 [THEN conjunct1] by (rule appended_trans)
  have a16: "appended ({EnvOTELServiceName K} \<union> {EnvOTELExporterOTLPEndpoint K} \<union> {EnvPodName K}
                \<union> {EnvPodUID K} \<union> {EnvNodeName K}) env env6"
    using a14 r6 [THEN conjunct1] unfolding r5 [THEN conjunct1] by (rule appended_trans)
  have a: "appended {EnvOTELServiceName K, EnvOTELExporterOTLPEndpoint K, EnvPodName K,
                       EnvPodUID K, EnvNodeName K} env env6"
    using a16 by (rule appended_mono) auto
  have "appended ({EnvOTELPropagators K} \<union> {EnvOTELTracesSampler K, EnvOTELTracesSamplerArg K})
          env7 (injectSampler K newrelic env8)"
    unfolding env8_def
    by (rule appended_trans [OF injectPropagators_appended injectSampler_appended])
  then obtain ys where ys: "injectSampler K newrelic env8 = env7 @ ys"
      "Name ` set ys \<subseteq> {EnvOTELPropagators K, EnvOTELTracesSampler K, EnvOTELTracesSamplerArg K}"
    by (auto simp: appended_def)
  have vk: "versionKeys K env4 \<subseteq> versionKeys K env"
    using a14 by (rule versionKeys_appended)
  have podkey: "K8SPodNameKey \<in> keysOf rm6"
    using r3 r4 r5 r6 by blast
  have k5: "keysOf rm5 \<subseteq> keysOf rm4 \<union> versionKeys K env4"
    using r5 by (simp add: versionKeys_def)
  have keys: "keysOf rm6 \<subseteq> keysOf resourceMap \<union> {K8SPodNameKey, K8SNodeNameKey}
                \<union> (if ?uid then {K8SPodUIDKey} else {}) \<union> versionKeys K env"
  proof
    fix k
    assume "k \<in> keysOf rm6"
    with r6 have "k = K8SNodeNameKey \<or> k \<in> keysOf rm5"
      by blast
    with k5 vk have "k = K8SNodeNameKey \<or> k \<in> keysOf rm4 \<or> k \<in> versionKeys K env"
      by blast
    with r4 have "k = K8SNodeNameKey \<or> k \<in> keysOf rm3 \<or> k \<in> (if ?uid then {K8SPodUIDKey} else {})
        \<or> k \<in> versionKeys K env"
      by blast
    with r3 have "k = K8SNodeNameKey \<or> k = K8SPodNameKey \<or> k \<in> keysOf resourceMap
        \<or> k \<in> (if ?uid then {K8SPodUIDKey} else {}) \<or> k \<in> versionKeys K env"
      by blast
    then show "k \<in> keysOf resourceMap \<union> {K8SPodNameKey, K8SNodeNameKey}
                \<union> (if ?uid then {K8SPodUIDKey} else {}) \<union> versionKeys K env"
      by blast
  qed
  have "env' = moveResourceAttrsLast K (injectResourceAttrs K (env6, rm6) @ ys)"
    using res ys(1) by (simp add: env7_def)
  with ys(2) a podkey keys show ?thesis
    by (intro exI [of _ env6] exI [of _ rm6] exI [of _ ys] conjI)
qed

lemma Name_extended: "Name (extended env resourceMap) = Name env"
  by (simp add: extended_def)

lemma final_present:
  assumes present: "EnvOTELResourceAttrs K \<in> Name ` set env"
  shows "moveResourceAttrsLast K (injectResourceAttrs K (env @ xs, resourceMap) @ ys) =
           take (firstIdx env (EnvOTELResourceAttrs K)) env
           @ drop (Suc (firstIdx env (EnvOTELResourceAttrs K))) env @ xs @ ys
           @ [extended (env ! firstIdx env (EnvOTELResourceAttrs K)) resourceMap]"
proof -
  let ?RA = "EnvOTELResourceAttrs K"
  let ?i = "firstIdx env ?RA"
  let ?new = "extended (env ! ?i) resourceMap"
  have i: "?i < length env"
    using present by (rule firstIdx_less)
  have present': "?RA \<in> Name ` set (env @ xs)"
    using present by auto
  have fi: "firstIdx (env @ xs) ?RA = ?i"
    using present by (rule firstIdx_append)
  have inj: "injectResourceAttrs K (env @ xs, resourceMap) = env[?i := ?new] @ xs"
    unfolding injectResourceAttrs_present [OF present'] fi
    using i by (simp add: nth_append list_update_append extended_def)
  let ?all = "env[?i := ?new] @ xs @ ys"
  have names: "map Name ?all = map Name (env @ xs @ ys)"
    using i firstIdx_Name [OF present]
    by (simp add: map_update Name_extended list_update_same_conv)
  have present'': "?RA \<in> Name ` set ?all"
  proof -
    have "?RA \<in> set (map Name (env @ xs @ ys))"
      using present by auto
    then have "?RA \<in> set (map Name ?all)"
      by (simp only: names)
    then show ?thesis
      by (simp only: set_map)
  qed
  have fi': "firstIdx ?all ?RA = ?i"
    using firstIdx_names [OF names, of ?RA] firstIdx_append [OF present, of "xs @ ys"]
    by simp
  have "moveResourceAttrsLast K ?all = take ?i ?all @ drop (Suc ?i) ?all @ [?all ! ?i]"
    unfolding moveResourceAttrsLast_def moveEnvToListEnd_shape [OF present''] fi' ..
  also have "\<dots> = take ?i env @ drop (Suc ?i) env @ xs @ ys @ [?new]"
    using i by (simp add: nth_append drop_update_cancel)
  finally show ?thesis
    unfolding inj by simp
qed

lemma final_absent:
  assumes absent: "EnvOTELResourceAttrs K \<notin> Name ` set (env @ xs)"
  shows "moveResourceAttrsLast K (injectResourceAttrs K (env @ xs, resourceMap) @ ys) =
           env @ xs @ ys @ [literalEnv (EnvOTELResourceAttrs K) (resourceMapToStr resourceMap)]"
proof -
  let ?RA = "EnvOTELResourceAttrs K"
  let ?v = "literalEnv ?RA (resourceMapToStr resourceMap)"
  let ?all = "(env @ xs) @ [?v] @ ys"
  have present: "?RA \<in> Name ` set ?all"
    by (simp add: literalEnv_def)
  have fi: "firstIdx ?all ?RA = length (env @ xs)"
    using firstIdx_append_absent [OF absent, of "[?v] @ ys"]
    by (simp add: firstIdx_def literalEnv_def)
  have "moveResourceAttrsLast K ?all = take (length (env @ xs)) ?all
          @ drop (Suc (length (env @ xs))) ?all @ [?all ! length (env @ xs)]"
    unfolding moveResourceAttrsLast_def moveEnvToListEnd_shape [OF present] fi ..
  also have "\<dots> = env @ xs @ ys @ [?v]"
    by (simp add: nth_append)
  finally show ?thesis
    unfolding injectResourceAttrs_absent [OF absent] by simp
qed

lemma Env_setContainerEnv:
  "0 \<le> index \<Longrightarrow> index < int (length (Containers (Spec pod))) \<Longrightarrow>
     Env (Containers (Spec (setContainerEnv pod index env)) ! nat index) = env"
  by (simp add: setContainerEnv_def)

lemma injectCommonSDKConfig_result:
  assumes "injectCommonSDKConfig K fuel c newrelic ns pod agentIndex appIndex n = Some (Inr (pod', n'))"
  shows "0 \<le> agentIndex \<and> agentIndex < int (length (Containers (Spec pod)))
         \<and> (\<exists>resourceMap.
               createResourceMap K fuel c newrelic ns pod appIndex n = Some (Inr (resourceMap, n'))
               \<and> commonSDKEnv K newrelic pod appIndex resourceMap
                    (Env (Containers (Spec pod) ! nat agentIndex))
                  = Inr (Env (Containers (Spec pod') ! nat agentIndex)))
         \<and> pod' = setContainerEnv pod agentIndex (Env (Containers (Spec pod') ! nat agentIndex))"
proof -
  from assms have range: "0 \<le> agentIndex \<and> agentIndex < int (length (Containers (Spec pod)))"
    by (auto simp: injectCommonSDKConfig_def at_def split: if_splits)
  then have at: "at (Containers (Spec pod)) agentIndex = Inr (Containers (Spec pod) ! nat agentIndex)"
    by (simp add: at_def)
  from assms obtain resourceMap env' where
    rm: "createResourceMap K fuel c newrelic ns pod appIndex n = Some (Inr (resourceMap, n'))"
    and env': "commonSDKEnv K newrelic pod appIndex resourceMap
                 (Env (Containers (Spec pod) ! nat agentIndex)) = Inr env'"
    and pod': "pod' = setContainerEnv pod agentIndex env'"
    unfolding injectCommonSDKConfig_def at
    by (auto simp: bindR_def split: option.splits sum.splits)
  have "Env (Containers (Spec pod') ! nat agentIndex) = env'"
    unfolding pod' using range by (simp add: Env_setContainerEnv)
  with range rm env' pod' show ?thesis
    by auto
qed

lemma Name_injectResourceAttrs:
  "EnvOTELResourceAttrs K \<in> Name ` set (injectResourceAttrs K (env, resourceMap))"
proof (cases "EnvOTELResourceAttrs K \<in> Name ` set env")
  case True
  let ?i = "firstIdx env (EnvOTELResourceAttrs K)"
  have "map Name (env[?i := extended (env ! ?i) resourceMap]) = map Name env"
    using firstIdx_less [OF True]
    by (simp add: map_update Name_extended list_update_same_conv)
  then have "Name ` set (env[?i := extended (env ! ?i) resourceMap]) = Name ` set env"
    by (metis set_map)
  with True show ?thesis
    unfolding injectResourceAttrs_present [OF True] extended_def by simp
next
  case False
  show ?thesis
    unfolding injectResourceAttrs_absent [OF False] by (simp add: literalEnv_def)
qed

lemma moveResourceAttrsLast_last:
  assumes "EnvOTELResourceAttrs K \<in> Name ` set env"
  shows "moveResourceAttrsLast K env \<noteq> []
         \<and> Name (last (moveResourceAttrsLast K env)) = EnvOTELResourceAttrs K"
  unfolding moveResourceAttrsLast_def moveEnvToListEnd_shape [OF assms]
  using firstIdx_Name [OF assms] by simp

lemma filter_single:
  assumes "length (filter P xs) \<le> 1" and "i < length xs" and "P (xs ! i)"
  shows "filter P (take i xs @ drop (Suc i) xs) = []"
proof -
  have "xs = take i xs @ xs ! i # drop (Suc i) xs"
    using assms(2) by (rule id_take_nth_drop)
  then have "filter P xs = filter P (take i xs) @ xs ! i # filter P (drop (Suc i) xs)"
    using assms(3) by (metis filter.simps(2) filter_append)
  then have "length (filter P (take i xs)) + length (filter P (drop (Suc i) xs)) = 0"
    using assms(1) by simp
  then show ?thesis
    by simp
qed

lemma last_only:
  assumes "name \<notin> Name ` set front" and "Name v = name"
  shows "getIndexOfEnv (front @ [v]) name = int (length (front @ [v])) - 1
         \<and> (\<forall>i < length (front @ [v]). Name ((front @ [v]) ! i) = name \<longrightarrow>
               i = length (front @ [v]) - 1)"
proof -
  have "firstIdx (front @ [v]) name = length front"
    using firstIdx_append_absent [OF assms(1), of "[v]"] assms(2)
    by (simp add: firstIdx_def)
  then have a: "getIndexOfEnv (front @ [v]) name = int (length (front @ [v])) - 1"
    using assms(2) by (simp add: getIndexOfEnv_eq)
  have b: "\<forall>i < length (front @ [v]). Name ((front @ [v]) ! i) = name \<longrightarrow>
               i = length (front @ [v]) - 1"
  proof (intro allI impI)
    fix i
    assume i: "i < length (front @ [v])" and n: "Name ((front @ [v]) ! i) = name"
    show "i = length (front @ [v]) - 1"
    proof (rule ccontr)
      assume "i \<noteq> length (front @ [v]) - 1"
      with i have "i < length front"
        by simp
      then have "(front @ [v]) ! i \<in> set front"
        by (simp add: nth_append)
      with n assms(1) show False
        by blast
    qed
  qed
  from a b show ?thesis ..
qed

text \<open>
  Claim C3, as amended. After \<open>injectCommonSDKConfig\<close> has returned, the environment list
  of the agent container is not empty and its last variable has the name of the resource
  attributes. When that name is none of the other names of the engine and the list held
  at most one variable with it before, the lookup by name finds it at the last index and
  no other variable has the name. \<open>moveEnvToListEnd\<close> puts the element at an index in
  range last and keeps the order of the others; out of range it returns the list.
\<close>

theorem resource_attrs_moved_last:
  assumes "injectCommonSDKConfig K fuel c newrelic ns pod agentIndex appIndex n = Some (Inr (pod', n'))"
  shows "Env (Containers (Spec pod') ! nat agentIndex) \<noteq> []
     \<and> Name (last (Env (Containers (Spec pod') ! nat agentIndex))) = EnvOTELResourceAttrs K
     \<and> (EnvOTELResourceAttrs K \<notin> {EnvOTELServiceName K, EnvOTELExporterOTLPEndpoint K, EnvPodName K,
            EnvPodUID K, EnvNodeName K, EnvOTELPropagators K, EnvOTELTracesSampler K,
            EnvOTELTracesSamplerArg K}
         \<and> length (filter (\<lambda>env. Name env = EnvOTELResourceAttrs K)
                     (Env (Containers (Spec pod) ! nat agentIndex))) \<le> 1 \<longrightarrow>
           getIndexOfEnv (Env (Containers (Spec pod') ! nat agentIndex)) (EnvOTELResourceAttrs K)
             = int (length (Env (Containers (Spec pod') ! nat agentIndex))) - 1
           \<and> (\<forall>i < length (Env (Containers (Spec pod') ! nat agentIndex)).
                 Name (Env (Containers (Spec pod') ! nat agentIndex) ! i) = EnvOTELResourceAttrs K
                 \<longrightarrow> i = length (Env (Containers (Spec pod') ! nat agentIndex)) - 1))
     \<and> (idx \<ge> 0 \<and> idx < int (length envs) \<longrightarrow>
           moveEnvToListEnd envs idx
             = take (nat idx) envs @ drop (Suc (nat idx)) envs @ [envs ! nat idx])
     \<and> (\<not> (idx \<ge> 0 \<and> idx < int (length envs)) \<longrightarrow> moveEnvToListEnd envs idx = envs)"
proof -
  let ?RA = "EnvOTELResourceAttrs K"
  let ?env = "Env (Containers (Spec pod) ! nat agentIndex)"
  let ?env' = "Env (Containers (Spec pod') ! nat agentIndex)"
  from injectCommonSDKConfig_result [OF assms] obtain resourceMap where
    run: "commonSDKEnv K newrelic pod appIndex resourceMap ?env = Inr ?env'"
    by blast
  from commonSDKEnv_result [OF run] obtain env6 rm6 ys where
    shape: "?env' = moveResourceAttrsLast K (injectResourceAttrs K (env6, rm6) @ ys)"
    and app: "appended {EnvOTELServiceName K, EnvOTELExporterOTLPEndpoint K, EnvPodName K,
                       EnvPodUID K, EnvNodeName K} ?env env6"
    and ys: "Name ` set ys \<subseteq> {EnvOTELPropagators K, EnvOTELTracesSampler K,
                                EnvOTELTracesSamplerArg K}"
    by blast
  have "?RA \<in> Name ` set (injectResourceAttrs K (env6, rm6) @ ys)"
    using Name_injectResourceAttrs [of K env6 rm6] by auto
  from moveResourceAttrsLast_last [OF this]
  have last: "?env' \<noteq> [] \<and> Name (last ?env') = ?RA"
    unfolding shape .
  have unique: "?RA \<notin> {EnvOTELServiceName K, EnvOTELExporterOTLPEndpoint K, EnvPodName K,
            EnvPodUID K, EnvNodeName K, EnvOTELPropagators K, EnvOTELTracesSampler K,
            EnvOTELTracesSamplerArg K}
         \<and> length (filter (\<lambda>env. Name env = ?RA) ?env) \<le> 1 \<longrightarrow>
           getIndexOfEnv ?env' ?RA = int (length ?env') - 1
           \<and> (\<forall>i < length ?env'. Name (?env' ! i) = ?RA \<longrightarrow> i = length ?env' - 1)"
  proof
    assume h: "?RA \<notin> {EnvOTELServiceName K, EnvOTELExporterOTLPEndpoint K, EnvPodName K,
            EnvPodUID K, EnvNodeName K, EnvOTELPropagators K, EnvOTELTracesSampler K,
            EnvOTELTracesSamplerArg K}
         \<and> length (filter (\<lambda>env. Name env = ?RA) ?env) \<le> 1"
    from app obtain xs where xs: "env6 = ?env @ xs"
      and nxs: "Name ` set xs \<subseteq> {EnvOTELServiceName K, EnvOTELExporterOTLPEndpoint K, EnvPodName K,
                       EnvPodUID K, EnvNodeName K}"
      by (auto simp: appended_def)
    have RAxs: "?RA \<notin> Name ` set xs"
      using h nxs by blast
    have RAys: "?RA \<notin> Name ` set ys"
      using h ys by blast
    have "\<exists>front v. ?env' = front @ [v] \<and> Name v = ?RA \<and> ?RA \<notin> Name ` set front"
    proof (cases "?RA \<in> Name ` set ?env")
      case True
      let ?i = "firstIdx ?env ?RA"
      have "filter (\<lambda>env. Name env = ?RA) (take ?i ?env @ drop (Suc ?i) ?env) = []"
        using h firstIdx_less [OF True] firstIdx_Name [OF True]
        by (intro filter_single) simp_all
      then have "?RA \<notin> Name ` set (take ?i ?env @ drop (Suc ?i) ?env)"
        by (auto simp: filter_empty_conv)
      with RAxs RAys have "?RA \<notin> Name ` set ((take ?i ?env @ drop (Suc ?i) ?env) @ xs @ ys)"
        by (simp only: set_append image_Un) blast
      moreover have "?env' = ((take ?i ?env @ drop (Suc ?i) ?env) @ xs @ ys) @ [extended (?env ! ?i) rm6]"
        unfolding shape xs final_present [OF True] by simp
      moreover have "Name (extended (?env ! ?i) rm6) = ?RA"
        using firstIdx_Name [OF True] by (simp add: Name_extended)
      ultimately show ?thesis
        by blast
    next
      case False
      with RAxs have absent: "?RA \<notin> Name ` set (?env @ xs)"
        by (simp only: set_append image_Un) blast
      with RAys have "?RA \<notin> Name ` set ((?env @ xs) @ ys)"
        by (simp only: set_append image_Un) blast
      moreover have "?env' = ((?env @ xs) @ ys) @ [literalEnv ?RA (resourceMapToStr rm6)]"
        unfolding shape xs final_absent [OF absent] by simp
      moreover have "Name (literalEnv ?RA (resourceMapToStr rm6)) = ?RA"
        by (simp add: literalEnv_def)
      ultimately show ?thesis
        by blast
    qed
    then obtain front v where fv: "?env' = front @ [v]" "Name v = ?RA" "?RA \<notin> Name ` set front"
      by blast
    show "getIndexOfEnv ?env' ?RA = int (length ?env') - 1
           \<and> (\<forall>i < length ?env'. Name (?env' ! i) = ?RA \<longrightarrow> i = length ?env' - 1)"
      unfolding fv(1) using fv(3) fv(2) by (rule last_only)
  qed
  have move: "(idx \<ge> 0 \<and> idx < int (length envs) \<longrightarrow>
           moveEnvToListEnd envs idx
             = take (nat idx) envs @ drop (Suc (nat idx)) envs @ [envs ! nat idx])
     \<and> (\<not> (idx \<ge> 0 \<and> idx < int (length envs)) \<longrightarrow> moveEnvToListEnd envs idx = envs)"
    by (simp add: moveEnvToListEnd_def Let_def)
  from last unique move show ?thesis
    by (intro conjI) (erule conjunct1, erule conjunct2, assumption, erule conjunct1, erule conjunct2)
qed

theorem resource_attrs_moved_last_witness:
  "injectCommonSDKConfig agentNames 0 notFoundClient (instWith [] False) nsProd
        (podWith [] [appContainer envOnce]) 0 0 0
      = Some (Inr (podWith [] [appContainer envTwice], 0))
   \<and> length (filter (\<lambda>env. Name env = ''OTEL_RESOURCE_ATTRIBUTES'') envOnce) \<le> 1
   \<and> Name (last envTwice) = ''OTEL_RESOURCE_ATTRIBUTES''
   \<and> getIndexOfEnv envTwice ''OTEL_RESOURCE_ATTRIBUTES'' = int (length envTwice) - 1
   \<and> moveEnvToListEnd envOnce 0
       = [fieldRefEnv ''OTEL_RESOURCE_ATTRIBUTES_NODE_NAME'' ''spec.nodeName'',
          literalEnv ''OTEL_RESOURCE_ATTRIBUTES'' attrsOnce,
          literalEnv ''OTEL_SERVICE_NAME'' ''web-1'']
   \<and> moveEnvToListEnd envOnce (- 1) = envOnce"
proof -
  have r: "injectCommonSDKConfig agentNames 0 notFoundClient (instWith [] False) nsProd
        (podWith [] [appContainer envOnce]) 0 0 0
      = Some (Inr (podWith [] [appContainer envTwice], 0))"
    by code_simp
  have e1: "Env (Containers (Spec (podWith [] [appContainer envOnce])) ! nat 0) = envOnce"
    by (simp add: podWith_def appContainer_def)
  have e2: "Env (Containers (Spec (podWith [] [appContainer envTwice])) ! nat 0) = envTwice"
    by (simp add: podWith_def appContainer_def)
  have ra: "EnvOTELResourceAttrs agentNames = ''OTEL_RESOURCE_ATTRIBUTES''"
    by (simp add: agentNames_def)
  have distinct: "''OTEL_RESOURCE_ATTRIBUTES'' \<notin> {EnvOTELServiceName agentNames,
      EnvOTELExporterOTLPEndpoint agentNames, EnvPodName agentNames, EnvPodUID agentNames,
      EnvNodeName agentNames, EnvOTELPropagators agentNames, EnvOTELTracesSampler agentNames,
      EnvOTELTracesSamplerArg agentNames}"
    by (simp add: agentNames_def)
  have one: "length (filter (\<lambda>env. Name env = ''OTEL_RESOURCE_ATTRIBUTES'') envOnce) \<le> 1"
    by (simp add: envOnce_def literalEnv_def fieldRefEnv_def)
  have in_range: "(0::int) \<ge> 0 \<and> 0 < int (length envOnce)"
    by (simp add: envOnce_def)
  have out_of_range: "\<not> ((- 1::int) \<ge> 0 \<and> - 1 < int (length envOnce))"
    by simp
  have nth: "take (nat 0) envOnce @ drop (Suc (nat 0)) envOnce @ [envOnce ! nat 0]
      = [fieldRefEnv ''OTEL_RESOURCE_ATTRIBUTES_NODE_NAME'' ''spec.nodeName'',
          literalEnv ''OTEL_RESOURCE_ATTRIBUTES'' attrsOnce,
          literalEnv ''OTEL_SERVICE_NAME'' ''web-1'']"
    by (simp add: envOnce_def)
  show ?thesis
    using r one distinct in_range out_of_range nth
      resource_attrs_moved_last [OF r, of 0 envOnce]
      resource_attrs_moved_last [OF r, of "- 1" envOnce]
    unfolding e1 e2 ra by simp
qed

text \<open>
  Two variables with the name of the resource attributes: the first one is extended and
  moved to the end, the second one is found at index 0 of a list of four.
\<close>

theorem resource_attrs_not_last_counterexample:
  "injectCommonSDKConfig agentNames 0 notFoundClient (instWith [] False) nsProd
     (podWith [] [appContainer [literalEnv ''OTEL_RESOURCE_ATTRIBUTES'' ''a=1'',
                                literalEnv ''OTEL_RESOURCE_ATTRIBUTES'' ''b=2'']]) 0 0 0
   = Some (Inr (podWith []
        [appContainer
           [literalEnv ''OTEL_RESOURCE_ATTRIBUTES'' ''b=2'',
            literalEnv ''OTEL_SERVICE_NAME'' ''web-1'',
            fieldRefEnv ''OTEL_RESOURCE_ATTRIBUTES_NODE_NAME'' ''spec.nodeName'',
            literalEnv ''OTEL_RESOURCE_ATTRIBUTES'' (''a=1,'' @ attrsOnce)]], 0))
   \<and> getIndexOfEnv
         [literalEnv ''OTEL_RESOURCE_ATTRIBUTES'' ''b=2'',
          literalEnv ''OTEL_SERVICE_NAME'' ''web-1'',
          fieldRefEnv ''OTEL_RESOURCE_ATTRIBUTES_NODE_NAME'' ''spec.nodeName'',
          literalEnv ''OTEL_RESOURCE_ATTRIBUTES'' (''a=1,'' @ attrsOnce)]
         ''OTEL_RESOURCE_ATTRIBUTES'' = 0
   \<and> int (length
         [literalEnv ''OTEL_RESOURCE_ATTRIBUTES'' ''b=2'',
          literalEnv ''OTEL_SERVICE_NAME'' ''web-1'',
          fieldRefEnv ''OTEL_RESOURCE_ATTRIBUTES_NODE_NAME'' ''spec.nodeName'',
          literalEnv ''OTEL_RESOURCE_ATTRIBUTES'' (''a=1,'' @ attrsOnce)]) - 1 = 3"
proof -
  have a: "injectCommonSDKConfig agentNames 0 notFoundClient (instWith [] False) nsProd
     (podWith [] [appContainer [literalEnv ''OTEL_RESOURCE_ATTRIBUTES'' ''a=1'',
                                literalEnv ''OTEL_RESOURCE_ATTRIBUTES'' ''b=2'']]) 0 0 0
   = Some (Inr (podWith []
        [appContainer
           [literalEnv ''OTEL_RESOURCE_ATTRIBUTES'' ''b=2'',
            literalEnv ''OTEL_SERVICE_NAME'' ''web-1'',
            fieldRefEnv ''OTEL_RESOURCE_ATTRIBUTES_NODE_NAME'' ''spec.nodeName'',
            literalEnv ''OTEL_RESOURCE_ATTRIBUTES'' (''a=1,'' @ attrsOnce)]], 0))"
    by code_simp
  have b: "getIndexOfEnv
         [literalEnv ''OTEL_RESOURCE_ATTRIBUTES'' ''b=2'',
          literalEnv ''OTEL_SERVICE_NAME'' ''web-1'',
          fieldRefEnv ''OTEL_RESOURCE_ATTRIBUTES_NODE_NAME'' ''spec.nodeName'',
          literalEnv ''OTEL_RESOURCE_ATTRIBUTES'' (''a=1,'' @ attrsOnce)]
         ''OTEL_RESOURCE_ATTRIBUTES'' = 0"
    by (simp add: getIndexOfEnv_def literalEnv_def)
  from a b show ?thesis
    by simp
qed

section \<open>A second run\<close>

text \<open>
  Claim C1: a second run of the engine on the pod of the first run, with the same spec
  and the same container, returns the pod of the first run. The code does not: a second
  run of \<open>injectCommonSDKConfig\<close> is not a fixed point. Lines 191 to 234 add the field
  references for the name of the pod and of the node whenever the map of
  \<open>createResourceMap\<close> has no value for the key, without the test \<open>idx == -1\<close> of the
  blocks at lines 173, 181, 250 and 259, and lines 236 to 248 append to the value of a
  resource-attributes variable that is there. On a pod with one container without
  variables the first run gives three variables. On the second run the variable of the
  first run declares every key that \<open>createResourceMap\<close> computes, so the map is empty:
  the two references are added, the variable for the name of the node stands twice in the
  list of five variables, and the two attributes are appended to the value once more.
  \<open>injectNewrelicConfig\<close>, where every block has the test, returns the pod of its first
  run.
\<close>

theorem second_run_not_fixed_point:
  "injectCommonSDKConfig agentNames 0 notFoundClient (instWith [] False) nsProd
        (podWith [] [appContainer []]) 0 0 0
      = Some (Inr (podWith [] [appContainer envOnce], 0))
   \<and> createResourceMap agentNames 0 notFoundClient (instWith [] False) nsProd
        (podWith [] [appContainer envOnce]) 0 0
      = Some (Inr ([], 0))
   \<and> injectCommonSDKConfig agentNames 0 notFoundClient (instWith [] False) nsProd
        (podWith [] [appContainer envOnce]) 0 0 0
      = Some (Inr (podWith [] [appContainer envTwice], 0))
   \<and> podWith [] [appContainer envTwice] \<noteq> podWith [] [appContainer envOnce]
   \<and> length envOnce = 3 \<and> length envTwice = 5
   \<and> filter (\<lambda>env. Name env = ''OTEL_RESOURCE_ATTRIBUTES_NODE_NAME'') envTwice
      = [fieldRefEnv ''OTEL_RESOURCE_ATTRIBUTES_NODE_NAME'' ''spec.nodeName'',
         fieldRefEnv ''OTEL_RESOURCE_ATTRIBUTES_NODE_NAME'' ''spec.nodeName'']
   \<and> Value (last envTwice) = Value (last envOnce) @ attrsAgain
   \<and> injectNewrelicConfig agentNames 0 notFoundClient (instWith [] False) nsProd
        (podWith [] [appContainer []]) 0 0
      = Some (Inr (podWith [] [appContainer envNewrelic], 0))
   \<and> injectNewrelicConfig agentNames 0 notFoundClient (instWith [] False) nsProd
        (podWith [] [appContainer envNewrelic]) 0 0
      = Some (Inr (podWith [] [appContainer envNewrelic], 0))"
proof -
  have run1: "injectCommonSDKConfig agentNames 0 notFoundClient (instWith [] False) nsProd
        (podWith [] [appContainer []]) 0 0 0
      = Some (Inr (podWith [] [appContainer envOnce], 0))"
    by code_simp
  have map2: "createResourceMap agentNames 0 notFoundClient (instWith [] False) nsProd
        (podWith [] [appContainer envOnce]) 0 0
      = Some (Inr ([], 0))"
    by code_simp
  have run2: "injectCommonSDKConfig agentNames 0 notFoundClient (instWith [] False) nsProd
        (podWith [] [appContainer envOnce]) 0 0 0
      = Some (Inr (podWith [] [appContainer envTwice], 0))"
    by code_simp
  have differ: "podWith [] [appContainer envTwice] \<noteq> podWith [] [appContainer envOnce]"
    by (simp add: podWith_def appContainer_def envTwice_def envOnce_def)
  have lengths: "length envOnce = 3 \<and> length envTwice = 5"
    by (simp add: envTwice_def envOnce_def)
  have twice: "filter (\<lambda>env. Name env = ''OTEL_RESOURCE_ATTRIBUTES_NODE_NAME'') envTwice
      = [fieldRefEnv ''OTEL_RESOURCE_ATTRIBUTES_NODE_NAME'' ''spec.nodeName'',
         fieldRefEnv ''OTEL_RESOURCE_ATTRIBUTES_NODE_NAME'' ''spec.nodeName'']"
    by (simp add: envTwice_def literalEnv_def fieldRefEnv_def)
  have longer: "Value (last envTwice) = Value (last envOnce) @ attrsAgain"
    by (simp add: envTwice_def envOnce_def literalEnv_def)
  have nr1: "injectNewrelicConfig agentNames 0 notFoundClient (instWith [] False) nsProd
        (podWith [] [appContainer []]) 0 0
      = Some (Inr (podWith [] [appContainer envNewrelic], 0))"
    by code_simp
  have nr2: "injectNewrelicConfig agentNames 0 notFoundClient (instWith [] False) nsProd
        (podWith [] [appContainer envNewrelic]) 0 0
      = Some (Inr (podWith [] [appContainer envNewrelic], 0))"
    by code_simp
  from run1 map2 run2 differ lengths twice longer nr1 nr2 show ?thesis
    by (intro conjI) simp_all
qed

section \<open>Attributes that the container declares\<close>

text \<open>
  Claim C2: when the resource-attributes variable of a container declares a pair
  \<open>k=v\<close>, then after \<open>injectCommonSDKConfig\<close> the value of \<open>k\<close> in that variable is
  \<open>v\<close> and the key \<open>k\<close> is not in the value a second time. The code does not keep
  this for the name of the pod (nor for the name of the node and the UID of the pod,
  which lines 203 and 224 treat alike). The variable declares \<open>k8s.pod.name=custom\<close>,
  so \<open>createResourceMap\<close> leaves the key out of its map, as its comment at lines 382 and
  383 says: attributes that the user defines have precedence. Line 191 then reads the
  empty string for the key, adds the field reference for the name of the pod and puts the
  key into the map, and the value of the variable declares \<open>k8s.pod.name\<close> twice. The
  same happens with the indices of the call at line 133, the agent container at the last
  index and the application container at index 0. With these indices the declared keys
  are read from the application container and the variable of the agent container is
  written: a key that only the agent container declares, \<open>k8s.namespace.name=custom\<close>,
  is appended again with the namespace of the pod.
\<close>

theorem existing_key_declared_twice:
  "existingResOf agentNames [literalEnv ''OTEL_RESOURCE_ATTRIBUTES'' ''k8s.pod.name=custom'']
     = [''k8s.pod.name'']
   \<and> createResourceMap agentNames 0 notFoundClient (instWith [] False) nsProd
       (podWith [] [appContainer [literalEnv ''OTEL_RESOURCE_ATTRIBUTES'' ''k8s.pod.name=custom'']])
       0 0
     = Some (Inr ([(''k8s.namespace.name'', ''prod''), (''k8s.container.name'', ''app''),
                   (''service.instance.id'', ''prod.web-1.app'')], 0))
   \<and> injectCommonSDKConfig agentNames 0 notFoundClient (instWith [] False) nsProd
       (podWith [] [appContainer [literalEnv ''OTEL_RESOURCE_ATTRIBUTES'' ''k8s.pod.name=custom'']])
       0 0 0
     = Some (Inr (podWith []
        [appContainer
           [literalEnv ''OTEL_SERVICE_NAME'' ''app'',
            fieldRefEnv ''OTEL_RESOURCE_ATTRIBUTES_POD_NAME'' ''metadata.name'',
            fieldRefEnv ''OTEL_RESOURCE_ATTRIBUTES_NODE_NAME'' ''spec.nodeName'',
            literalEnv ''OTEL_RESOURCE_ATTRIBUTES''
              (''k8s.pod.name=custom,k8s.container.name=app,k8s.namespace.name=prod,''
               @ ''k8s.node.name=$(OTEL_RESOURCE_ATTRIBUTES_NODE_NAME),''
               @ ''k8s.pod.name=$(OTEL_RESOURCE_ATTRIBUTES_POD_NAME),''
               @ ''service.instance.id=prod.web-1.app,service.version=1.2.3'')]], 0))
   \<and> existingResOf agentNames
         [literalEnv ''OTEL_RESOURCE_ATTRIBUTES''
              (''k8s.pod.name=custom,k8s.container.name=app,k8s.namespace.name=prod,''
               @ ''k8s.node.name=$(OTEL_RESOURCE_ATTRIBUTES_NODE_NAME),''
               @ ''k8s.pod.name=$(OTEL_RESOURCE_ATTRIBUTES_POD_NAME),''
               @ ''service.instance.id=prod.web-1.app,service.version=1.2.3'')]
     = [''k8s.pod.name'', ''k8s.container.name'', ''k8s.namespace.name'', ''k8s.node.name'',
        ''k8s.pod.name'', ''service.instance.id'', ''service.version'']
   \<and> injectCommonSDKConfig agentNames 0 notFoundClient (instWith [] False) nsProd
       (podWith []
          [appContainer [literalEnv ''OTEL_RESOURCE_ATTRIBUTES'' ''k8s.pod.name=custom''],
           \<lparr>CName = ''agent'', Image = ''agent:2'',
            Env = [literalEnv ''OTEL_RESOURCE_ATTRIBUTES'' ''k8s.pod.name=custom'']\<rparr>])
       1 0 0
     = Some (Inr (podWith []
          [appContainer [literalEnv ''OTEL_RESOURCE_ATTRIBUTES'' ''k8s.pod.name=custom''],
           \<lparr>CName = ''agent'', Image = ''agent:2'',
            Env = [literalEnv ''OTEL_SERVICE_NAME'' ''app'',
                   fieldRefEnv ''OTEL_RESOURCE_ATTRIBUTES_POD_NAME'' ''metadata.name'',
                   fieldRefEnv ''OTEL_RESOURCE_ATTRIBUTES_NODE_NAME'' ''spec.nodeName'',
                   literalEnv ''OTEL_RESOURCE_ATTRIBUTES''
                     (''k8s.pod.name=custom,k8s.container.name=app,k8s.namespace.name=prod,''
                      @ ''k8s.node.name=$(OTEL_RESOURCE_ATTRIBUTES_NODE_NAME),''
                      @ ''k8s.pod.name=$(OTEL_RESOURCE_ATTRIBUTES_POD_NAME),''
                      @ ''service.instance.id=prod.web-1.app,service.version=1.2.3'')]\<rparr>], 0))
   \<and> injectCommonSDKConfig agentNames 0 notFoundClient (instWith [] False) nsProd
       (podWith []
          [appContainer [],
           \<lparr>CName = ''agent'', Image = ''agent:2'',
            Env = [literalEnv ''OTEL_RESOURCE_ATTRIBUTES'' ''k8s.namespace.name=custom'']\<rparr>])
       1 0 0
     = Some (Inr (podWith []
          [appContainer [],
           \<lparr>CName = ''agent'', Image = ''agent:2'',
            Env = [literalEnv ''OTEL_SERVICE_NAME'' ''web-1'',
                   fieldRefEnv ''OTEL_RESOURCE_ATTRIBUTES_NODE_NAME'' ''spec.nodeName'',
                   literalEnv ''OTEL_RESOURCE_ATTRIBUTES''
                     (''k8s.namespace.name=custom,k8s.container.name=app,k8s.namespace.name=prod,''
                      @ ''k8s.node.name=$(OTEL_RESOURCE_ATTRIBUTES_NODE_NAME),k8s.pod.name=web-1,''
                      @ ''service.instance.id=prod.web-1.app,service.version=1.2.3'')]\<rparr>], 0))"
proof -
  have a: "existingResOf agentNames [literalEnv ''OTEL_RESOURCE_ATTRIBUTES'' ''k8s.pod.name=custom'']
     = [''k8s.pod.name'']"
    by code_simp
  have m: "createResourceMap agentNames 0 notFoundClient (instWith [] False) nsProd
       (podWith [] [appContainer [literalEnv ''OTEL_RESOURCE_ATTRIBUTES'' ''k8s.pod.name=custom'']])
       0 0
     = Some (Inr ([(''k8s.namespace.name'', ''prod''), (''k8s.container.name'', ''app''),
                   (''service.instance.id'', ''prod.web-1.app'')], 0))"
    by code_simp
  have b: "injectCommonSDKConfig agentNames 0 notFoundClient (instWith [] False) nsProd
       (podWith [] [appContainer [literalEnv ''OTEL_RESOURCE_ATTRIBUTES'' ''k8s.pod.name=custom'']])
       0 0 0
     = Some (Inr (podWith []
        [appContainer
           [literalEnv ''OTEL_SERVICE_NAME'' ''app'',
            fieldRefEnv ''OTEL_RESOURCE_ATTRIBUTES_POD_NAME'' ''metadata.name'',
            fieldRefEnv ''OTEL_RESOURCE_ATTRIBUTES_NODE_NAME'' ''spec.nodeName'',
            literalEnv ''OTEL_RESOURCE_ATTRIBUTES''
              (''k8s.pod.name=custom,k8s.container.name=app,k8s.namespace.name=prod,''
               @ ''k8s.node.name=$(OTEL_RESOURCE_ATTRIBUTES_NODE_NAME),''
               @ ''k8s.pod.name=$(OTEL_RESOURCE_ATTRIBUTES_POD_NAME),''
               @ ''service.instance.id=prod.web-1.app,service.version=1.2.3'')]], 0))"
    by code_simp
  have c: "existingResOf agentNames
         [literalEnv ''OTEL_RESOURCE_ATTRIBUTES''
              (''k8s.pod.name=custom,k8s.container.name=app,k8s.namespace.name=prod,''
               @ ''k8s.node.name=$(OTEL_RESOURCE_ATTRIBUTES_NODE_NAME),''
               @ ''k8s.pod.name=$(OTEL_RESOURCE_ATTRIBUTES_POD_NAME),''
               @ ''service.instance.id=prod.web-1.app,service.version=1.2.3'')]
     = [''k8s.pod.name'', ''k8s.container.name'', ''k8s.namespace.name'', ''k8s.node.name'',
        ''k8s.pod.name'', ''service.instance.id'', ''service.version'']"
    by code_simp
  have d: "injectCommonSDKConfig agentNames 0 notFoundClient (instWith [] False) nsProd
       (podWith []
          [appContainer [literalEnv ''OTEL_RESOURCE_ATTRIBUTES'' ''k8s.pod.name=custom''],
           \<lparr>CName = ''agent'', Image = ''agent:2'',
            Env = [literalEnv ''OTEL_RESOURCE_ATTRIBUTES'' ''k8s.pod.name=custom'']\<rparr>])
       1 0 0
     = Some (Inr (podWith []
          [appContainer [literalEnv ''OTEL_RESOURCE_ATTRIBUTES'' ''k8s.pod.name=custom''],
           \<lparr>CName = ''agent'', Image = ''agent:2'',
            Env = [literalEnv ''OTEL_SERVICE_NAME'' ''app'',
                   fieldRefEnv ''OTEL_RESOURCE_ATTRIBUTES_POD_NAME'' ''metadata.name'',
                   fieldRefEnv ''OTEL_RESOURCE_ATTRIBUTES_NODE_NAME'' ''spec.nodeName'',
                   literalEnv ''OTEL_RESOURCE_ATTRIBUTES''
                     (''k8s.pod.name=custom,k8s.container.name=app,k8s.namespace.name=prod,''
                      @ ''k8s.node.name=$(OTEL_RESOURCE_ATTRIBUTES_NODE_NAME),''
                      @ ''k8s.pod.name=$(OTEL_RESOURCE_ATTRIBUTES_POD_NAME),''
                      @ ''service.instance.id=prod.web-1.app,service.version=1.2.3'')]\<rparr>], 0))"
    by code_simp
  have e: "injectCommonSDKConfig agentNames 0 notFoundClient (instWith [] False) nsProd
       (podWith []
          [appContainer [],
           \<lparr>CName = ''agent'', Image = ''agent:2'',
            Env = [literalEnv ''OTEL_RESOURCE_ATTRIBUTES'' ''k8s.namespace.name=custom'']\<rparr>])
       1 0 0
     = Some (Inr (podWith []
          [appContainer [],
           \<lparr>CName = ''agent'', Image = ''agent:2'',
            Env = [literalEnv ''OTEL_SERVICE_NAME'' ''web-1'',
                   fieldRefEnv ''OTEL_RESOURCE_ATTRIBUTES_NODE_NAME'' ''spec.nodeName'',
                   literalEnv ''OTEL_RESOURCE_ATTRIBUTES''
                     (''k8s.namespace.name=custom,k8s.container.name=app,k8s.namespace.name=prod,''
                      @ ''k8s.node.name=$(OTEL_RESOURCE_ATTRIBUTES_NODE_NAME),k8s.pod.name=web-1,''
                      @ ''service.instance.id=prod.web-1.app,service.version=1.2.3'')]\<rparr>], 0))"
    by code_simp
  from a m b c d e show ?thesis
    by (intro conjI)
qed

end
